theory Spec2Isabelle
  imports Complex_Main
begin

section \<open>The credential pool (\<open>KeyPool\<close>)\<close>

text \<open>
  Numbers of the source are JavaScript numbers. Limits and usage are modelled as rationals
  (every finite double is one), time stamps (\<open>Date.now()\<close>) as integers and the prompt
  counter as a natural number. Strings are byte strings; \<open>trim\<close> removes the ASCII white
  space characters (the white space of Unicode beyond ASCII is left out).

  The pool keeps its records in the array \<open>this.keys\<close>, which is filled by the constructor
  and never reordered or resized afterwards. A reference to a pool record is therefore modelled
  as the index of the record in that array.
\<close>

datatype js_error = Error string | TypeError | SyntaxError | ZlibError

record 's KeyRec =
  key :: 's
  isTrial :: bool
  isGpt4 :: bool
  isDisabled :: bool
  softLimit :: rat
  hardLimit :: rat
  systemHardLimit :: rat
  usage :: rat
  promptCount :: nat
  lastUsed :: int
  lastChecked :: int
  hash :: string

text \<open>\<open>Key\<close> is the type of the pool's records; a listed entry has \<open>key: undefined\<close>,
  written \<open>None\<close>.\<close>

type_synonym Key = "string KeyRec"
type_synonym ListedKey = "string option KeyRec"

record KeyUpdate =
  upd_isTrial :: "bool option"
  upd_isGpt4 :: "bool option"
  upd_softLimit :: "rat option"
  upd_hardLimit :: "rat option"
  upd_systemHardLimit :: "rat option"
  upd_usage :: "rat option"

subsection \<open>Strings: \<open>trim\<close>, \<open>split(",")\<close>, \<open>startsWith\<close>\<close>

definition is_ws :: "char \<Rightarrow> bool" where
  "is_ws c = (c \<in> set [CHR 0x09, CHR 0x0A, CHR 0x0B, CHR 0x0C, CHR 0x0D, CHR 0x20])"

definition trim :: "string \<Rightarrow> string" where
  "trim s = rev (dropWhile is_ws (rev (dropWhile is_ws s)))"

fun split_comma :: "string \<Rightarrow> string list" where
  "split_comma [] = [[]]"
| "split_comma (c # cs) =
     (if c = CHR 0x2C then [] # split_comma cs
      else (case split_comma cs of [] \<Rightarrow> [[c]] | w # ws \<Rightarrow> (c # w) # ws))"

definition startsWith :: "string \<Rightarrow> string \<Rightarrow> bool" where
  "startsWith s p = (take (length p) s = p)"

subsection \<open>The constructor\<close>

text \<open>
  \<open>digest\<close> stands for \<open>crypto.createHash("sha256").update(k).digest("hex")\<close>, a function
  of the Node runtime; the record's hash is its first six characters.
\<close>

definition newKey :: "(string \<Rightarrow> string) \<Rightarrow> string \<Rightarrow> Key" where
  "newKey digest k =
     \<lparr> key = k, isTrial = False, isGpt4 = False, isDisabled = False,
       softLimit = 0, hardLimit = 0, systemHardLimit = 0, usage = 0,
       promptCount = 0, lastUsed = 0, lastChecked = 0,
       hash = take 6 (digest k) \<rparr>"

definition not_set_message :: string where
  "not_set_message = ''OPENAI_KEY environment variable is not set''"

text \<open>\<open>config.openaiKey\<close> is a string or undefined (\<open>None\<close>).\<close>

definition constructor :: "(string \<Rightarrow> string) \<Rightarrow> string option \<Rightarrow> js_error + Key list" where
  "constructor digest keyString =
     (case keyString of
        None \<Rightarrow> Inl (Error not_set_message)
      | Some s \<Rightarrow>
          if trim s = [] then Inl (Error not_set_message)
          else Inr (map (newKey digest) (map trim (split_comma s))))"

subsection \<open>\<open>list\<close>\<close>

text \<open>
  Every entry of \<open>list()\<close> is a new object \<open>{...key, key: undefined}\<close>, frozen by
  \<open>Object.freeze\<close>.
\<close>

definition listed :: "Key \<Rightarrow> ListedKey" where
  "listed k =
     \<lparr> key = None, isTrial = isTrial k, isGpt4 = isGpt4 k, isDisabled = isDisabled k,
       softLimit = softLimit k, hardLimit = hardLimit k,
       systemHardLimit = systemHardLimit k, usage = usage k,
       promptCount = promptCount k, lastUsed = lastUsed k, lastChecked = lastChecked k,
       hash = hash k \<rparr>"

definition list_keys :: "Key list \<Rightarrow> ListedKey list" where
  "list_keys ks = map listed ks"

text \<open>
  An assignment to a property of a frozen object changes nothing: it throws a
  \<open>TypeError\<close> in strict mode and is ignored otherwise. The caller's attempt to apply
  \<open>f\<close> to the entry \<open>i\<close> of a listing, in a state made of the listing and the pool:
\<close>

definition assign_listed ::
  "bool \<Rightarrow> (ListedKey \<Rightarrow> ListedKey) \<Rightarrow> nat \<Rightarrow> ListedKey list \<times> Key list
     \<Rightarrow> js_error option \<times> ListedKey list \<times> Key list" where
  "assign_listed strict f i st = (if strict then Some TypeError else None, st)"

subsection \<open>\<open>get\<close>\<close>

text \<open>
  The object that \<open>get\<close> returns is either the pool's own record (the trial branch returns
  \<open>trialKeys[0]\<close>, an element of \<open>this.keys\<close>) or a new object (\<open>{ ...oldestKey }\<close>).
\<close>

datatype selected = PoolRecord nat | DetachedCopy Key

definition needsGpt4Key :: "string \<Rightarrow> bool" where
  "needsGpt4Key model = startsWith model ''gpt-4''"

definition available :: "bool \<Rightarrow> Key \<Rightarrow> bool" where
  "available needs k = (\<not> isDisabled k \<and> (\<not> needs \<or> isGpt4 k))"

text \<open>The filtered array holds references to the pool's records, in pool order.\<close>

definition availableKeys :: "bool \<Rightarrow> Key list \<Rightarrow> nat list" where
  "availableKeys needs ks = filter (\<lambda>i. available needs (ks ! i)) [0..<length ks]"

definition no_keys_message :: string where
  "no_keys_message = ''No keys available. Please add more keys.''"

definition no_gpt4_keys_message :: string where
  "no_gpt4_keys_message =
     ''No GPT-4 keys available. Please add more keys or use a non-GPT-4 model.''"

definition touch :: "int \<Rightarrow> nat \<Rightarrow> Key list \<Rightarrow> Key list" where
  "touch now i ks = ks[i := (ks ! i)\<lparr>lastUsed := now\<rparr>]"

text \<open>
  \<open>Array.prototype.sort\<close> is stable and the comparator \<open>a.lastUsed - b.lastUsed\<close> orders
  by \<open>lastUsed\<close>, ascending; \<open>sort_key\<close> is a stable insertion sort. The sort acts on the
  filtered array, not on \<open>this.keys\<close>.
\<close>

definition get :: "string \<Rightarrow> int \<Rightarrow> Key list \<Rightarrow> js_error + (selected \<times> Key list)" where
  "get model now ks =
     (let needs = needsGpt4Key model;
          avail = availableKeys needs ks
      in if avail = [] then
           Inl (Error (if needs then no_gpt4_keys_message else no_keys_message))
         else
           (case filter (\<lambda>i. isTrial (ks ! i)) avail of
              t # _ \<Rightarrow> Inr (PoolRecord t, touch now t ks)
            | [] \<Rightarrow>
                (case sort_key (\<lambda>i. lastUsed (ks ! i)) avail of
                   [] \<Rightarrow> Inl TypeError
                 | oldest # _ \<Rightarrow>
                     (let ks' = touch now oldest ks
                      in Inr (DetachedCopy (ks' ! oldest), ks')))))"

text \<open>What the holder of a returned object reads through it, and what an assignment
  through it does, in a given state of the pool.\<close>

fun read_selected :: "selected \<Rightarrow> Key list \<Rightarrow> Key" where
  "read_selected (PoolRecord i) ks = ks ! i"
| "read_selected (DetachedCopy k) ks = k"

fun assign_selected :: "(Key \<Rightarrow> Key) \<Rightarrow> selected \<Rightarrow> Key list \<Rightarrow> selected \<times> Key list" where
  "assign_selected f (PoolRecord i) ks = (PoolRecord i, ks[i := f (ks ! i)])"
| "assign_selected f (DetachedCopy k) ks = (DetachedCopy (f k), ks)"

subsection \<open>Mutators found by \<open>Array.prototype.find\<close>\<close>

text \<open>\<open>find_ref P ks\<close> is the reference to the first record that satisfies \<open>P\<close>;
  \<open>None\<close> is the \<open>undefined\<close> that \<open>find\<close> returns when there is none.\<close>

primrec find_ref :: "('a \<Rightarrow> bool) \<Rightarrow> 'a list \<Rightarrow> nat option" where
  "find_ref P [] = None"
| "find_ref P (x # xs) = (if P x then Some 0 else map_option Suc (find_ref P xs))"

definition assign_update :: "KeyUpdate \<Rightarrow> int \<Rightarrow> Key \<Rightarrow> Key" where
  "assign_update u now k =
     k\<lparr> isTrial := (case upd_isTrial u of None \<Rightarrow> isTrial k | Some v \<Rightarrow> v),
        isGpt4 := (case upd_isGpt4 u of None \<Rightarrow> isGpt4 k | Some v \<Rightarrow> v),
        softLimit := (case upd_softLimit u of None \<Rightarrow> softLimit k | Some v \<Rightarrow> v),
        hardLimit := (case upd_hardLimit u of None \<Rightarrow> hardLimit k | Some v \<Rightarrow> v),
        systemHardLimit :=
          (case upd_systemHardLimit u of None \<Rightarrow> systemHardLimit k | Some v \<Rightarrow> v),
        usage := (case upd_usage u of None \<Rightarrow> usage k | Some v \<Rightarrow> v),
        lastChecked := now \<rparr>"

text \<open>\<open>Object.assign(undefined, ...)\<close> throws a \<open>TypeError\<close>.\<close>

definition update :: "string \<Rightarrow> KeyUpdate \<Rightarrow> int \<Rightarrow> Key list \<Rightarrow> js_error + Key list" where
  "update keyHash u now ks =
     (case find_ref (\<lambda>k. hash k = keyHash) ks of
        None \<Rightarrow> Inl TypeError
      | Some i \<Rightarrow> Inr (ks[i := assign_update u now (ks ! i)]))"

definition disable :: "Key \<Rightarrow> Key list \<Rightarrow> js_error + Key list" where
  "disable k ks =
     (case find_ref (\<lambda>p. key p = key k) ks of
        None \<Rightarrow> Inl TypeError
      | Some i \<Rightarrow>
          if isDisabled (ks ! i) then Inr ks
          else Inr (ks[i := (ks ! i)\<lparr>isDisabled := True\<rparr>]))"

definition anyAvailable :: "Key list \<Rightarrow> bool" where
  "anyAvailable ks = list_ex (\<lambda>k. \<not> isDisabled k) ks"

text \<open>\<open>!keyHash\<close> holds of \<open>undefined\<close> and of the empty string.\<close>

definition incrementPrompt :: "string option \<Rightarrow> Key list \<Rightarrow> js_error + Key list" where
  "incrementPrompt keyHash ks =
     (case keyHash of
        None \<Rightarrow> Inr ks
      | Some h \<Rightarrow>
          if h = [] then Inr ks
          else (case find_ref (\<lambda>k. hash k = h) ks of
                  None \<Rightarrow> Inl TypeError
                | Some i \<Rightarrow> Inr (ks[i := (ks ! i)\<lparr>promptCount := promptCount (ks ! i) + 1\<rparr>])))"

definition downgradeKey :: "string option \<Rightarrow> Key list \<Rightarrow> js_error + Key list" where
  "downgradeKey keyHash ks =
     (case keyHash of
        None \<Rightarrow> Inr ks
      | Some h \<Rightarrow>
          if h = [] then Inr ks
          else (case find_ref (\<lambda>k. hash k = h) ks of
                  None \<Rightarrow> Inl TypeError
                | Some i \<Rightarrow> Inr (ks[i := (ks ! i)\<lparr>isGpt4 := False\<rparr>])))"

subsection \<open>\<open>calculateRemainingQuota\<close>\<close>

text \<open>
  The result of a JavaScript division is a number, \<open>NaN\<close> or an infinity: \<open>0 / 0\<close> is
  \<open>NaN\<close> and \<open>x / 0\<close> is an infinity with the sign of \<open>x\<close>. Rounding is left out: the
  quotient of two finite numbers is the exact rational.
\<close>

datatype js_number = Finite rat | NaN | PosInfinity | NegInfinity

definition js_div :: "rat \<Rightarrow> rat \<Rightarrow> js_number" where
  "js_div a b =
     (if b \<noteq> 0 then Finite (a / b)
      else if a = 0 then NaN
      else if 0 < a then PosInfinity else NegInfinity)"

fun one_minus :: "js_number \<Rightarrow> js_number" where
  "one_minus (Finite q) = Finite (1 - q)"
| "one_minus NaN = NaN"
| "one_minus PosInfinity = NegInfinity"
| "one_minus NegInfinity = PosInfinity"

definition totalUsage :: "Key list \<Rightarrow> rat" where
  "totalUsage keys = foldl (\<lambda>acc k. acc + min (usage k) (hardLimit k)) 0 keys"

definition totalLimit :: "Key list \<Rightarrow> rat" where
  "totalLimit keys = foldl (\<lambda>acc k. acc + hardLimit k) 0 keys"

definition calculateRemainingQuota :: "bool \<Rightarrow> Key list \<Rightarrow> js_number" where
  "calculateRemainingQuota gpt4Only ks =
     (let keys = (if gpt4Only then filter isGpt4 ks else ks)
      in if keys = [] then Finite 0
         else one_minus (js_div (totalUsage keys) (totalLimit keys)))"

subsection \<open>The information page\<close>

text \<open>The \<open>keys\<close> entry of the service information that \<open>getInfoPageHtml\<close> derives
  from \<open>keys.list()\<close>.\<close>

record keys_info =
  info_all :: nat
  info_active :: nat
  info_trial :: nat
  info_gpt4 :: nat
  info_proompts :: nat

definition getInfoKeys :: "ListedKey list \<Rightarrow> keys_info" where
  "getInfoKeys keylist =
     \<lparr> info_all = length keylist,
       info_active = length (filter (\<lambda>k. \<not> isDisabled k) keylist),
       info_trial = length (filter isTrial keylist),
       info_gpt4 = length (filter isGpt4 keylist),
       info_proompts = foldl (\<lambda>acc k. acc + promptCount k) 0 keylist \<rparr>"

section \<open>The response translation stage (\<open>handleProxiedResponse\<close>)\<close>

text \<open>
  The type \<open>'b\<close> is the type of byte sequences: a \<open>Buffer\<close> and the string it decodes to
  (\<open>body.toString()\<close>) are identified. The functions of \<open>zlib\<close> and \<open>JSON\<close> belong to the
  Node runtime and are parameters of the stage: \<open>gunzip\<close> and \<open>inflate\<close> reject some inputs
  (\<open>None\<close>), \<open>JSON.parse\<close> throws a \<open>SyntaxError\<close> on some (\<open>None\<close>).
\<close>

datatype json =
  JNull | JBool bool | JNumber rat | JString string
  | JArray "json list" | JObject "(string \<times> json) list"

datatype js_value = Undefined | Value json

record 'b runtime =
  gunzip :: "'b \<Rightarrow> 'b option"
  inflate :: "'b \<Rightarrow> 'b option"
  gzip :: "'b \<Rightarrow> 'b"
  deflate :: "'b \<Rightarrow> 'b"
  json_parse :: "'b \<Rightarrow> json option"
  json_stringify :: "json \<Rightarrow> 'b"

text \<open>
  The upstream response: \<open>downstreamError\<close> says that \<open>handleDownstreamErrors\<close> threw,
  \<open>up_headers\<close> are the headers (Node writes their names in lower case) and \<open>up_body\<close> is
  \<open>Buffer.concat(chunks)\<close>. Of the request, the stage uses \<open>req.key?.hash\<close>.
\<close>

record 'b proxyRes =
  downstreamError :: bool
  up_headers :: "string \<rightharpoonup> string"
  up_body :: 'b

record request =
  req_key_hash :: "string option"

text \<open>
  What the stage has done when it is over: the pool, the headers and the body given to the
  client response, and the exception that left the \<open>end\<close> callback, if any. Nothing in the
  stage catches that exception.
\<close>

record 'b outcome =
  pool_after :: "Key list"
  client_headers :: "string \<rightharpoonup> string"
  client_body :: "'b option"
  thrown :: "js_error option"

subsection \<open>Helpers imported from \<open>./common\<close>\<close>

text \<open>
  Modelled from the spec: \<open>incrementKeyUsage\<close> of \<open>./common\<close>, which is not among the
  sources. The stage "triggers usage accounting on the pool (\<open>recordPromptServed\<close>) using the
  key identity that was injected", and an error of that mutation is "logged and the mutation is
  skipped rather than propagated into the request path".
\<close>

definition incrementKeyUsage :: "request \<Rightarrow> Key list \<Rightarrow> Key list" where
  "incrementKeyUsage req ks =
     (case incrementPrompt (req_key_hash req) ks of Inl e \<Rightarrow> ks | Inr ks' \<Rightarrow> ks')"

text \<open>
  Modelled from the spec: \<open>copyHttpHeaders\<close> of \<open>./common\<close>, which is not among the
  sources. The client response is written "with a matching header": every header of the
  upstream response is set on the client response.
\<close>

definition copyHttpHeaders :: "(string \<rightharpoonup> string) \<Rightarrow> (string \<rightharpoonup> string) \<Rightarrow> (string \<rightharpoonup> string)" where
  "copyHttpHeaders up res = res ++ up"

subsection \<open>Property access\<close>

text \<open>
  \<open>member name v\<close> is \<open>v.name\<close> for the names \<open>choices\<close>, \<open>message\<close>, \<open>content\<close> and
  \<open>model\<close>, which no prototype defines, and \<open>at0 v\<close> is \<open>v[0]\<close>. Reading a property of
  \<open>undefined\<close> or \<open>null\<close> throws a \<open>TypeError\<close>; a property that is not there reads as
  \<open>undefined\<close>. The objects come out of \<open>JSON.parse\<close>, so their keys are distinct.
\<close>

definition lookup :: "string \<Rightarrow> (string \<times> json) list \<Rightarrow> js_value" where
  "lookup name props = (case map_of props name of None \<Rightarrow> Undefined | Some v \<Rightarrow> Value v)"

fun member :: "string \<Rightarrow> js_value \<Rightarrow> js_error + js_value" where
  "member name Undefined = Inl TypeError"
| "member name (Value JNull) = Inl TypeError"
| "member name (Value (JObject props)) = Inr (lookup name props)"
| "member name (Value v) = Inr Undefined"

fun at0 :: "js_value \<Rightarrow> js_error + js_value" where
  "at0 Undefined = Inl TypeError"
| "at0 (Value JNull) = Inl TypeError"
| "at0 (Value (JObject props)) = Inr (lookup ''0'' props)"
| "at0 (Value (JArray [])) = Inr Undefined"
| "at0 (Value (JArray (x # xs))) = Inr (Value x)"
| "at0 (Value (JString [])) = Inr Undefined"
| "at0 (Value (JString (c # cs))) = Inr (Value (JString [c]))"
| "at0 (Value v) = Inr Undefined"

definition and_then :: "'e + 'a \<Rightarrow> ('a \<Rightarrow> 'e + 'c) \<Rightarrow> 'e + 'c" where
  "and_then r f = (case r of Inl e \<Rightarrow> Inl e | Inr x \<Rightarrow> f x)"

text \<open>\<open>response.choices[0].message.content\<close>\<close>

definition completion_content :: "json \<Rightarrow> js_error + js_value" where
  "completion_content response =
     and_then (and_then (and_then (member ''choices'' (Value response)) at0)
       (member ''message'')) (member ''content'')"

text \<open>
  \<open>JSON.stringify\<close> leaves out the properties of an object whose value is \<open>undefined\<close>;
  \<open>object_of\<close> is the object that it serialises.
\<close>

fun object_of :: "(string \<times> js_value) list \<Rightarrow> (string \<times> json) list" where
  "object_of [] = []"
| "object_of ((k, Undefined) # kvs) = object_of kvs"
| "object_of ((k, Value v) # kvs) = (k, v) # object_of kvs"

definition koboldResponse :: "json \<Rightarrow> js_error + json" where
  "koboldResponse response =
     and_then (completion_content response) (\<lambda>content.
     and_then (member ''model'' (Value response)) (\<lambda>model.
       Inr (JObject (object_of
         [(''results'', Value (JArray [JObject (object_of [(''text'', content)])])),
          (''model'', model)]))))"

subsection \<open>The stage\<close>

definition decode_body :: "'b runtime \<Rightarrow> string option \<Rightarrow> 'b \<Rightarrow> js_error + 'b" where
  "decode_body rt contentEncoding body =
     (if contentEncoding = Some ''gzip'' then
        (case gunzip rt body of None \<Rightarrow> Inl ZlibError | Some b \<Rightarrow> Inr b)
      else if contentEncoding = Some ''deflate'' then
        (case inflate rt body of None \<Rightarrow> Inl ZlibError | Some b \<Rightarrow> Inr b)
      else Inr body)"

text \<open>The reply of the \<open>end\<close> callback: the \<open>Content-Encoding\<close> it sets, if it sets one,
  and the body it sends.\<close>

definition send_reply :: "'b runtime \<Rightarrow> string option \<Rightarrow> json \<Rightarrow> string option \<times> 'b" where
  "send_reply rt contentEncoding kobold =
     (if contentEncoding = Some ''gzip'' then
        (Some ''gzip'', gzip rt (json_stringify rt kobold))
      else if contentEncoding = Some ''deflate'' then
        (Some ''deflate'', deflate rt (json_stringify rt kobold))
      else (None, json_stringify rt kobold))"

definition on_end :: "'b runtime \<Rightarrow> 'b proxyRes \<Rightarrow> js_error + (string option \<times> 'b)" where
  "on_end rt proxyRes =
     (let contentEncoding = up_headers proxyRes ''content-encoding''
      in and_then (decode_body rt contentEncoding (up_body proxyRes)) (\<lambda>body.
         case json_parse rt body of
           None \<Rightarrow> Inl SyntaxError
         | Some response \<Rightarrow>
             and_then (koboldResponse response) (\<lambda>kobold.
               Inr (send_reply rt contentEncoding kobold))))"

text \<open>The client response has no header and no body when the stage starts.\<close>

definition handleProxiedResponse ::
  "'b runtime \<Rightarrow> 'b proxyRes \<Rightarrow> request \<Rightarrow> Key list \<Rightarrow> 'b outcome" where
  "handleProxiedResponse rt proxyRes req ks =
     (if downstreamError proxyRes then
        \<lparr> pool_after = ks, client_headers = Map.empty, client_body = None, thrown = None \<rparr>
      else
        (let ks1 = incrementKeyUsage req ks;
             hs1 = copyHttpHeaders (up_headers proxyRes) Map.empty
         in case on_end rt proxyRes of
              Inl e \<Rightarrow>
                \<lparr> pool_after = ks1, client_headers = hs1, client_body = None,
                  thrown = Some e \<rparr>
            | Inr (set_encoding, payload) \<Rightarrow>
                \<lparr> pool_after = ks1,
                  client_headers =
                    (case set_encoding of
                       None \<Rightarrow> hs1
                     | Some v \<Rightarrow> hs1(''content-encoding'' \<mapsto> v)),
                  client_body = Some payload, thrown = None \<rparr>))"

section \<open>Concrete inputs\<close>

text \<open>
  The examples below need a digest and a runtime to run on. \<open>fixture_digest\<close> pads its input
  with zeros. \<open>fixture_runtime\<close> works on symbolic byte sequences: the text of a JSON value,
  a compressed sequence, or bytes that are neither.
\<close>

definition fixture_digest :: "string \<Rightarrow> string" where
  "fixture_digest s = s @ replicate 64 (CHR ''0'')"

datatype wire = JsonText json | Gzipped wire | Deflated wire | Junk

definition fixture_runtime :: "wire runtime" where
  "fixture_runtime =
     \<lparr> gunzip = (\<lambda>w. case w of Gzipped x \<Rightarrow> Some x | _ \<Rightarrow> None),
       inflate = (\<lambda>w. case w of Deflated x \<Rightarrow> Some x | _ \<Rightarrow> None),
       gzip = Gzipped,
       deflate = Deflated,
       json_parse = (\<lambda>w. case w of JsonText j \<Rightarrow> Some j | _ \<Rightarrow> None),
       json_stringify = JsonText \<rparr>"

text \<open>Pools, as they are after some selections and a disabled key, and a health update.\<close>

definition fixture_pool :: "Key list" where
  "fixture_pool =
     [ (newKey fixture_digest ''sk-a'')\<lparr>lastUsed := 7\<rparr>,
       (newKey fixture_digest ''sk-b'')\<lparr>lastUsed := 3\<rparr>,
       (newKey fixture_digest ''sk-c'')\<lparr>lastUsed := 3\<rparr>,
       (newKey fixture_digest ''sk-d'')\<lparr>isGpt4 := True, isDisabled := True\<rparr> ]"

definition fixture_trial_pool :: "Key list" where
  "fixture_trial_pool =
     [ (newKey fixture_digest ''sk-a'')\<lparr>lastUsed := 7\<rparr>,
       (newKey fixture_digest ''sk-t'')\<lparr>isTrial := True, lastUsed := 9\<rparr>,
       (newKey fixture_digest ''sk-u'')\<lparr>isTrial := True, lastUsed := 2\<rparr> ]"

definition fixture_update :: KeyUpdate where
  "fixture_update =
     \<lparr> upd_isTrial = None, upd_isGpt4 = Some True, upd_softLimit = None,
       upd_hardLimit = Some 120, upd_systemHardLimit = None, upd_usage = Some 10 \<rparr>"

text \<open>
  A request that carries the second key of \<open>fixture_pool\<close>, upstream responses with a
  given \<open>Content-Encoding\<close> and body, the completion of the provider with the legacy
  response that belongs to it, and two completions that lack a part.
\<close>

definition fixture_request :: request where
  "fixture_request = \<lparr> req_key_hash = Some ''sk-b00'' \<rparr>"

definition fixture_response :: "string option \<Rightarrow> wire \<Rightarrow> wire proxyRes" where
  "fixture_response contentEncoding body =
     \<lparr> downstreamError = False,
       up_headers = (case contentEncoding of
                       None \<Rightarrow> Map.empty
                     | Some v \<Rightarrow> [''content-encoding'' \<mapsto> v]),
       up_body = body \<rparr>"

definition fixture_completion :: json where
  "fixture_completion =
     JObject [(''choices'', JArray [JObject [(''message'',
                 JObject [(''content'', JString ''hello'')])]]),
              (''model'', JString ''gpt-x'')]"

definition fixture_legacy :: json where
  "fixture_legacy =
     JObject [(''results'', JArray [JObject [(''text'', JString ''hello'')]]),
              (''model'', JString ''gpt-x'')]"

definition fixture_no_choices :: json where
  "fixture_no_choices = JObject [(''choices'', JArray [])]"

definition fixture_no_content :: json where
  "fixture_no_content = JObject [(''choices'', JArray [JObject [(''message'', JObject [])]])]"

text \<open>A completion as the provider sends it, with the fields that the stage does not read
  and a second choice.\<close>

definition fixture_provider_response :: json where
  "fixture_provider_response =
     JObject
       [(''id'', JString ''chatcmpl-1''),
        (''object'', JString ''chat.completion''),
        (''created'', JNumber 1680000000),
        (''model'', JString ''gpt-x''),
        (''usage'', JObject [(''prompt_tokens'', JNumber 9), (''completion_tokens'', JNumber 2),
                            (''total_tokens'', JNumber 11)]),
        (''choices'',
           JArray
             [JObject [(''index'', JNumber 0),
                       (''message'', JObject [(''role'', JString ''assistant''),
                                              (''content'', JString ''hello'')]),
                       (''finish_reason'', JString ''stop'')],
              JObject [(''index'', JNumber 1),
                       (''message'', JObject [(''role'', JString ''assistant''),
                                              (''content'', JString ''bye'')]),
                       (''finish_reason'', JString ''stop'')]])]"

section \<open>Properties of the credential pool\<close>

subsection \<open>Remaining quota\<close>

lemma foldl_add_sum: "foldl (\<lambda>acc k. acc + f k) (a::rat) xs = a + sum_list (map f xs)"
  by (induction xs arbitrary: a) (simp_all add: add.assoc)

text \<open>
  Where the filtered set is not empty, its limits and usages are not negative and the limits
  add up to a positive number, the fraction is a number between 0 and 1.
\<close>

lemma quota_bounds:
  assumes "keys = (if gpt4Only then filter isGpt4 ks else ks)"
    and "keys \<noteq> []"
    and "\<forall>k\<in>set keys. 0 \<le> usage k \<and> 0 \<le> hardLimit k"
    and "0 < totalLimit keys"
  shows "\<exists>q. calculateRemainingQuota gpt4Only ks = Finite q \<and> 0 \<le> q \<and> q \<le> 1"
proof -
  have u: "totalUsage keys = sum_list (map (\<lambda>k. min (usage k) (hardLimit k)) keys)"
    by (simp add: totalUsage_def foldl_add_sum)
  have l: "totalLimit keys = sum_list (map hardLimit keys)"
    by (simp add: totalLimit_def foldl_add_sum)
  have le: "totalUsage keys \<le> totalLimit keys"
    unfolding u l by (rule sum_list_mono) simp
  have ge: "0 \<le> totalUsage keys"
    unfolding u using assms(3) by (intro sum_list_nonneg) auto
  let ?q = "1 - totalUsage keys / totalLimit keys"
  have "calculateRemainingQuota gpt4Only ks = Finite ?q"
    using assms(1,2,4) by (simp add: calculateRemainingQuota_def js_div_def Let_def)
  moreover have "0 \<le> ?q" using le assms(4) by (simp add: divide_le_eq_1)
  moreover have "?q \<le> 1" using ge assms(4) by simp
  ultimately show ?thesis by blast
qed

lemma quota_empty:
  "(if gpt4Only then filter isGpt4 ks else ks) = [] \<Longrightarrow>
     calculateRemainingQuota gpt4Only ks = Finite 0"
  by (simp add: calculateRemainingQuota_def Let_def)

text \<open>
  C1. The remaining quota fraction is claimed to be 0 when the limits of the filtered set add
  up to zero, and never \<open>NaN\<close>. A pool as the constructor leaves it, here for the
  configuration \<open>sk-a\<close>, has one record of limit 0 and usage 0: the guard for the empty
  set does not apply, the division is \<open>0 / 0\<close> and the fraction is \<open>NaN\<close>.
\<close>

theorem quota_of_fresh_pool_is_NaN:
  "constructor fixture_digest (Some ''sk-a'') = Inr [newKey fixture_digest ''sk-a'']
   \<and> calculateRemainingQuota False [newKey fixture_digest ''sk-a''] = NaN
   \<and> calculateRemainingQuota False [newKey fixture_digest ''sk-a''] \<noteq> Finite 0"
  by (simp add: constructor_def trim_def is_ws_def calculateRemainingQuota_def
      totalUsage_def totalLimit_def newKey_def js_div_def)

subsection \<open>References into the pool\<close>

lemma find_ref_Some:
  "find_ref P xs = Some i \<Longrightarrow> i < length xs \<and> P (xs ! i) \<and> (\<forall>j<i. \<not> P (xs ! j))"
proof (induction xs arbitrary: i)
  case Nil
  then show ?case by simp
next
  case (Cons x xs)
  show ?case
  proof (cases "P x")
    case True
    with Cons.prems show ?thesis by simp
  next
    case False
    with Cons.prems obtain i' where i': "find_ref P xs = Some i'" "i = Suc i'"
      by auto
    from Cons.IH[OF i'(1)] False i'(2) show ?thesis
      by (auto simp: nth_Cons less_Suc_eq_0_disj)
  qed
qed

lemma find_ref_None: "(find_ref P xs = None) = (\<forall>x\<in>set xs. \<not> P x)"
  by (induction xs) auto

lemma hd_insort_key:
  "hd (insort_key f x ys) = (if ys = [] \<or> f x \<le> f (hd ys) then x else hd ys)"
  by (cases ys) auto

lemma hd_sort_key_first_min:
  fixes f :: "nat \<Rightarrow> int"
  assumes "xs \<noteq> []" "sorted_wrt (<) xs"
  shows "hd (sort_key f xs) \<in> set xs \<and> (\<forall>j\<in>set xs. f (hd (sort_key f xs)) \<le> f j)
         \<and> (\<forall>j\<in>set xs. j < hd (sort_key f xs) \<longrightarrow> f (hd (sort_key f xs)) < f j)"
  using assms
proof (induction xs)
  case Nil
  then show ?case by simp
next
  case (Cons x xs)
  show ?case
  proof (cases "xs = []")
    case True
    then show ?thesis by simp
  next
    case False
    let ?m = "hd (sort_key f xs)"
    from Cons.prems have sw: "sorted_wrt (<) xs" and lt: "\<forall>j\<in>set xs. x < j" by auto
    note IH = Cons.IH[OF False sw]
    have ne: "sort_key f xs \<noteq> []" using False by (metis length_0_conv length_sort)
    have hd_eq: "hd (sort_key f (x # xs)) = (if f x \<le> f ?m then x else ?m)"
      using ne by (simp add: hd_insort_key)
    show ?thesis
    proof (cases "f x \<le> f ?m")
      case True
      then show ?thesis using hd_eq IH lt by fastforce
    next
      case False
      then show ?thesis using hd_eq IH lt by fastforce
    qed
  qed
qed

lemma filter_upt_first:
  "filter P [m..<n] = t # rest \<Longrightarrow> m \<le> t \<and> t < n \<and> P t \<and> (\<forall>j. m \<le> j \<and> j < t \<longrightarrow> \<not> P j)"
proof (induction "n - m" arbitrary: m)
  case 0
  then show ?case by simp
next
  case (Suc d)
  then have mn: "m < n" by simp
  then have upt: "[m..<n] = m # [Suc m..<n]" by (simp add: upt_conv_Cons)
  show ?case
  proof (cases "P m")
    case True
    with Suc.prems upt mn show ?thesis by auto
  next
    case False
    with Suc.prems upt have "filter P [Suc m..<n] = t # rest" by simp
    moreover have "d = n - Suc m" using Suc.hyps(2) by simp
    ultimately have "Suc m \<le> t \<and> t < n \<and> P t \<and> (\<forall>j. Suc m \<le> j \<and> j < t \<longrightarrow> \<not> P j)"
      using Suc.hyps(1) by blast
    with False show ?thesis
      by (metis Suc_leD le_antisym not_less_eq_eq)
  qed
qed

lemma set_availableKeys:
  "set (availableKeys needs ks) = {i. i < length ks \<and> available needs (ks ! i)}"
  by (auto simp: availableKeys_def)

lemma availableKeys_empty:
  "(availableKeys needs ks = []) = (\<forall>k\<in>set ks. \<not> available needs k)"
proof -
  have "(availableKeys needs ks = []) = (set (availableKeys needs ks) = {})" by simp
  also have "\<dots> = (\<forall>i<length ks. \<not> available needs (ks ! i))"
    unfolding set_availableKeys by auto
  also have "\<dots> = (\<forall>k\<in>set ks. \<not> available needs k)"
    by (metis in_set_conv_nth)
  finally show ?thesis .
qed

lemma sorted_availableKeys: "sorted_wrt (<) (availableKeys needs ks)"
  unfolding availableKeys_def by (rule sorted_wrt_filter) simp


lemma get_none:
  assumes "\<forall>k\<in>set ks. \<not> available (needsGpt4Key model) k"
  shows "get model now ks =
    Inl (Error (if needsGpt4Key model then no_gpt4_keys_message else no_keys_message))"
  using assms by (simp add: get_def Let_def availableKeys_empty)

lemma get_trial:
  assumes "\<exists>k\<in>set ks. available (needsGpt4Key model) k \<and> isTrial k"
  shows "\<exists>i<length ks. available (needsGpt4Key model) (ks ! i) \<and> isTrial (ks ! i)
           \<and> (\<forall>j<i. \<not> (available (needsGpt4Key model) (ks ! j) \<and> isTrial (ks ! j)))
           \<and> get model now ks = Inr (PoolRecord i, touch now i ks)"
proof -
  let ?n = "needsGpt4Key model"
  let ?av = "availableKeys ?n ks"
  let ?P = "\<lambda>i. available ?n (ks ! i) \<and> isTrial (ks ! i)"
  have tr: "filter (\<lambda>i. isTrial (ks ! i)) ?av = filter ?P [0..<length ks]"
    by (simp add: availableKeys_def conj_commute)
  from assms obtain i0 where i0: "i0 < length ks" "?P i0"
    by (metis in_set_conv_nth)
  then have "i0 \<in> set (filter ?P [0..<length ks])" by simp
  then obtain t rest where c: "filter ?P [0..<length ks] = t # rest"
    by (cases "filter ?P [0..<length ks]") auto
  from filter_upt_first[OF c] have t: "t < length ks" "?P t" "\<forall>j<t. \<not> ?P j" by auto
  have ne: "?av \<noteq> []" using i0 set_availableKeys[of ?n ks]
    by (metis (mono_tags, lifting) empty_iff list.set(1) mem_Collect_eq)
  have "get model now ks = Inr (PoolRecord t, touch now t ks)"
    using ne c tr by (simp add: get_def Let_def)
  with t show ?thesis by blast
qed

lemma get_oldest:
  assumes "\<exists>k\<in>set ks. available (needsGpt4Key model) k"
    and "\<not> (\<exists>k\<in>set ks. available (needsGpt4Key model) k \<and> isTrial k)"
  shows "\<exists>i<length ks. available (needsGpt4Key model) (ks ! i)
           \<and> (\<forall>j<length ks. available (needsGpt4Key model) (ks ! j) \<longrightarrow>
                  lastUsed (ks ! i) \<le> lastUsed (ks ! j))
           \<and> (\<forall>j<i. available (needsGpt4Key model) (ks ! j) \<longrightarrow>
                  lastUsed (ks ! i) < lastUsed (ks ! j))
           \<and> get model now ks = Inr (DetachedCopy (touch now i ks ! i), touch now i ks)"
proof -
  let ?n = "needsGpt4Key model"
  let ?av = "availableKeys ?n ks"
  let ?f = "\<lambda>i. lastUsed (ks ! i)"
  have ne: "?av \<noteq> []" using assms(1) by (simp add: availableKeys_empty)
  have "set (filter (\<lambda>i. isTrial (ks ! i)) ?av) = {}"
    using assms(2) by (auto simp: set_availableKeys)
  then have notrial: "filter (\<lambda>i. isTrial (ks ! i)) ?av = []" by simp
  have sne: "sort_key ?f ?av \<noteq> []" using ne by (metis length_0_conv length_sort)
  then obtain m rest where s: "sort_key ?f ?av = m # rest" by (cases "sort_key ?f ?av") auto
  then have hd: "hd (sort_key ?f ?av) = m" by simp
  from hd_sort_key_first_min[OF ne sorted_availableKeys, of ?f] hd
  have m: "m \<in> set ?av" "\<forall>j\<in>set ?av. ?f m \<le> ?f j" "\<forall>j\<in>set ?av. j < m \<longrightarrow> ?f m < ?f j"
    by auto
  have g: "get model now ks = Inr (DetachedCopy (touch now m ks ! m), touch now m ks)"
    using ne notrial s by (simp add: get_def Let_def)
  from m have "m < length ks" "available ?n (ks ! m)"
    "\<forall>j<length ks. available ?n (ks ! j) \<longrightarrow> ?f m \<le> ?f j"
    "\<forall>j<m. available ?n (ks ! j) \<longrightarrow> ?f m < ?f j"
    by (auto simp: set_availableKeys)
  with g show ?thesis by blast
qed

subsection \<open>Selection\<close>

lemma touch_nth: "i < length ks \<Longrightarrow> touch now i ks ! i = (ks ! i)\<lparr>lastUsed := now\<rparr>"
  by (simp add: touch_def)

text \<open>
  C5. Where some record that is not disabled satisfies the capability requirement, \<open>get\<close>
  succeeds. If one of these records is a trial key, the selected record is the first of them in
  pool order; otherwise it is the first in pool order among those of least \<open>lastUsed\<close>.
  In both cases the pool after the call is the pool before it with the \<open>lastUsed\<close> of the
  selected record set to the current time, and the returned object reads as that record.
\<close>

theorem get_selects_trial_else_oldest:
  assumes "\<exists>k\<in>set ks. available (needsGpt4Key model) k"
  shows "\<exists>i sel. i < length ks \<and> available (needsGpt4Key model) (ks ! i)
     \<and> get model now ks = Inr (sel, ks[i := (ks ! i)\<lparr>lastUsed := now\<rparr>])
     \<and> read_selected sel (ks[i := (ks ! i)\<lparr>lastUsed := now\<rparr>]) = (ks ! i)\<lparr>lastUsed := now\<rparr>
     \<and> (if \<exists>k\<in>set ks. available (needsGpt4Key model) k \<and> isTrial k
        then isTrial (ks ! i)
           \<and> (\<forall>j<i. \<not> (available (needsGpt4Key model) (ks ! j) \<and> isTrial (ks ! j)))
        else (\<forall>j<length ks. available (needsGpt4Key model) (ks ! j) \<longrightarrow>
                 lastUsed (ks ! i) \<le> lastUsed (ks ! j))
           \<and> (\<forall>j<i. available (needsGpt4Key model) (ks ! j) \<longrightarrow>
                 lastUsed (ks ! i) < lastUsed (ks ! j)))"
proof (cases "\<exists>k\<in>set ks. available (needsGpt4Key model) k \<and> isTrial k")
  case True
  from get_trial[OF True, of now] obtain i where i: "i < length ks"
    "available (needsGpt4Key model) (ks ! i)" "isTrial (ks ! i)"
    "\<forall>j<i. \<not> (available (needsGpt4Key model) (ks ! j) \<and> isTrial (ks ! j))"
    "get model now ks = Inr (PoolRecord i, touch now i ks)" by blast
  have "read_selected (PoolRecord i) (ks[i := (ks ! i)\<lparr>lastUsed := now\<rparr>])
      = (ks ! i)\<lparr>lastUsed := now\<rparr>" using i(1) by simp
  with i True show ?thesis by (intro exI[of _ i] exI[of _ "PoolRecord i"]) (simp add: touch_def)
next
  case False
  from get_oldest[OF assms False, of now] obtain i where i: "i < length ks"
    "available (needsGpt4Key model) (ks ! i)"
    "\<forall>j<length ks. available (needsGpt4Key model) (ks ! j) \<longrightarrow> lastUsed (ks ! i) \<le> lastUsed (ks ! j)"
    "\<forall>j<i. available (needsGpt4Key model) (ks ! j) \<longrightarrow> lastUsed (ks ! i) < lastUsed (ks ! j)"
    "get model now ks = Inr (DetachedCopy (touch now i ks ! i), touch now i ks)" by blast
  let ?sel = "DetachedCopy (touch now i ks ! i)"
  have "read_selected ?sel (ks[i := (ks ! i)\<lparr>lastUsed := now\<rparr>]) = (ks ! i)\<lparr>lastUsed := now\<rparr>"
    using i(1) by (simp add: touch_def)
  with i False show ?thesis by (intro exI[of _ i] exI[of _ ?sel]) (simp add: touch_def)
qed

lemma messages_differ: "no_gpt4_keys_message \<noteq> no_keys_message"
  by (simp add: no_gpt4_keys_message_def no_keys_message_def)

lemma get_succeeds:
  assumes "\<exists>k\<in>set ks. available (needsGpt4Key model) k"
  shows "\<exists>r. get model now ks = Inr r"
proof (cases "\<exists>k\<in>set ks. available (needsGpt4Key model) k \<and> isTrial k")
  case True
  from get_trial[OF True, of now] show ?thesis by blast
next
  case False
  from get_oldest[OF assms False, of now] show ?thesis by blast
qed

lemma get_Inr_cases:
  assumes "get model now ks = Inr (sel, ks')"
  shows "(\<exists>k\<in>set ks. available (needsGpt4Key model) k)"
  using assms get_none[of ks model now] by (metis Inl_Inr_False)

lemma get_Inr_selected:
  assumes "get model now ks = Inr (sel, ks')"
  shows "\<exists>i<length ks. available (needsGpt4Key model) (ks ! i) \<and> ks' = touch now i ks
          \<and> (if \<exists>k\<in>set ks. available (needsGpt4Key model) k \<and> isTrial k
              then sel = PoolRecord i else sel = DetachedCopy (ks' ! i))"
proof (cases "\<exists>k\<in>set ks. available (needsGpt4Key model) k \<and> isTrial k")
  case True
  from get_trial[OF True, of now] assms True show ?thesis by auto
next
  case False
  from get_oldest[OF get_Inr_cases[OF assms] False, of now] assms False show ?thesis by auto
qed

text \<open>
  C6. Where no record that is not disabled satisfies the capability requirement, \<open>get\<close>
  throws an \<open>Error\<close> whose message is the GPT-4 message when the model needs GPT-4 and the
  general message otherwise, and the two messages differ. A record that \<open>get\<close> returns
  is not disabled. A request that does not need GPT-4 succeeds as soon as one record is not
  disabled, whatever the state of the GPT-4 records.
\<close>

theorem get_fails_without_available_key:
  "((\<forall>k\<in>set ks. \<not> available (needsGpt4Key model) k) \<longrightarrow>
       get model now ks =
         Inl (Error (if needsGpt4Key model then no_gpt4_keys_message else no_keys_message)))
   \<and> no_gpt4_keys_message \<noteq> no_keys_message
   \<and> (\<forall>sel ks'. get model now ks = Inr (sel, ks') \<longrightarrow>
         \<not> isDisabled (read_selected sel ks')
         \<and> (\<exists>i<length ks. \<not> isDisabled (ks ! i)
               \<and> read_selected sel ks' = (ks ! i)\<lparr>lastUsed := now\<rparr>))
   \<and> (\<not> needsGpt4Key model \<and> (\<exists>k\<in>set ks. \<not> isDisabled k) \<longrightarrow>
         (\<exists>r. get model now ks = Inr r))"
proof (intro conjI allI impI)
  assume "\<forall>k\<in>set ks. \<not> available (needsGpt4Key model) k"
  then show "get model now ks =
         Inl (Error (if needsGpt4Key model then no_gpt4_keys_message else no_keys_message))"
    by (rule get_none)
next
  show "no_gpt4_keys_message \<noteq> no_keys_message" by (rule messages_differ)
next
  fix sel ks'
  assume g: "get model now ks = Inr (sel, ks')"
  from get_Inr_selected[OF g] obtain i where i: "i < length ks"
    "available (needsGpt4Key model) (ks ! i)" "ks' = touch now i ks"
    "sel = PoolRecord i \<or> sel = DetachedCopy (ks' ! i)"
    by (metis (full_types))
  then have r: "read_selected sel ks' = (ks ! i)\<lparr>lastUsed := now\<rparr>"
    by (auto simp: touch_def)
  moreover have nd: "\<not> isDisabled (ks ! i)" using i(2) by (simp add: available_def)
  ultimately show "\<not> isDisabled (read_selected sel ks')" by simp
  from r nd i(1) show "\<exists>i<length ks. \<not> isDisabled (ks ! i)
               \<and> read_selected sel ks' = (ks ! i)\<lparr>lastUsed := now\<rparr>" by blast
next
  assume a: "\<not> needsGpt4Key model \<and> (\<exists>k\<in>set ks. \<not> isDisabled k)"
  then have "\<exists>k\<in>set ks. available (needsGpt4Key model) k" by (auto simp: available_def)
  then show "\<exists>r. get model now ks = Inr r" by (rule get_succeeds)
qed

text \<open>
  C10. On the trial branch \<open>get\<close> returns the pool's own record: reading through the
  returned object gives the record as the pool has it at that time, and an assignment through
  it changes the pool. Otherwise it returns a copy of the selected record as it is after the
  selection: the copy reads the same whatever happens to the pool later, and an assignment
  through it leaves the pool as it is.
\<close>

theorem get_returns_copy_or_pool_record:
  assumes "get model now ks = Inr (sel, ks')"
  shows "if \<exists>k\<in>set ks. available (needsGpt4Key model) k \<and> isTrial k
         then \<exists>i<length ks. sel = PoolRecord i
                \<and> (\<forall>later. read_selected sel later = later ! i)
                \<and> (\<forall>f. assign_selected f sel ks' = (sel, ks'[i := f (ks' ! i)]))
         else \<exists>i<length ks. sel = DetachedCopy (ks' ! i)
                \<and> ks' ! i = (ks ! i)\<lparr>lastUsed := now\<rparr>
                \<and> (\<forall>later. read_selected sel later = ks' ! i)
                \<and> (\<forall>f. snd (assign_selected f sel ks') = ks')"
proof -
  from get_Inr_selected[OF assms] obtain i where i: "i < length ks" "ks' = touch now i ks"
    "if \<exists>k\<in>set ks. available (needsGpt4Key model) k \<and> isTrial k
              then sel = PoolRecord i else sel = DetachedCopy (ks' ! i)" by blast
  show ?thesis
  proof (cases "\<exists>k\<in>set ks. available (needsGpt4Key model) k \<and> isTrial k")
    case True
    with i have "sel = PoolRecord i" by simp
    with True i(1) show ?thesis by auto
  next
    case False
    with i have "sel = DetachedCopy (ks' ! i)" by simp
    moreover have "ks' ! i = (ks ! i)\<lparr>lastUsed := now\<rparr>" using i by (simp add: touch_def)
    ultimately show ?thesis using False i(1) by auto
  qed
qed

lemmas fixture_defs = fixture_pool_def fixture_trial_pool_def newKey_def fixture_digest_def

lemmas get_eval = get_def Let_def availableKeys_def available_def needsGpt4Key_def
  startsWith_def touch_def upt_conv_Cons no_keys_message_def no_gpt4_keys_message_def


lemma fx_get_pool:
  "get ''gpt-3.5-turbo'' 100 fixture_pool =
     Inr (DetachedCopy ((fixture_pool ! 1)\<lparr>lastUsed := 100\<rparr>),
          fixture_pool[1 := (fixture_pool ! 1)\<lparr>lastUsed := 100\<rparr>])"
  by (simp add: get_eval fixture_defs)

lemma fx_get_trial:
  "get ''gpt-3.5-turbo'' 100 fixture_trial_pool =
     Inr (PoolRecord 1, fixture_trial_pool[1 := (fixture_trial_pool ! 1)\<lparr>lastUsed := 100\<rparr>])"
  by (simp add: get_eval fixture_defs)

lemma fx_avail: "\<exists>k\<in>set fixture_pool. available (needsGpt4Key ''gpt-3.5-turbo'') k"
  by (simp add: fixture_defs available_def needsGpt4Key_def startsWith_def)

theorem get_selects_trial_else_oldest_witness:
  "(\<exists>k\<in>set fixture_pool. available (needsGpt4Key ''gpt-3.5-turbo'') k)
   \<and> get ''gpt-3.5-turbo'' 100 fixture_pool =
       Inr (DetachedCopy ((fixture_pool ! 1)\<lparr>lastUsed := 100\<rparr>),
            fixture_pool[1 := (fixture_pool ! 1)\<lparr>lastUsed := 100\<rparr>])
   \<and> lastUsed (fixture_pool ! 1) = 3 \<and> lastUsed (fixture_pool ! 2) = 3
   \<and> lastUsed (fixture_pool ! 0) = 7
   \<and> get ''gpt-3.5-turbo'' 100 fixture_trial_pool =
       Inr (PoolRecord 1,
            fixture_trial_pool[1 := (fixture_trial_pool ! 1)\<lparr>lastUsed := 100\<rparr>])
   \<and> isTrial (fixture_trial_pool ! 1) \<and> \<not> isTrial (fixture_trial_pool ! 0)"
proof -
  note t = get_selects_trial_else_oldest[OF fx_avail, of 100]
  have "lastUsed (fixture_pool ! 1) = 3 \<and> lastUsed (fixture_pool ! 2) = 3
   \<and> lastUsed (fixture_pool ! 0) = 7 \<and> isTrial (fixture_trial_pool ! 1) \<and> \<not> isTrial (fixture_trial_pool ! 0)"
    by (simp add: fixture_defs)
  with t fx_avail fx_get_pool fx_get_trial show ?thesis by simp
qed

theorem get_fails_without_available_key_witness:
  "\<not> (\<exists>k\<in>set fixture_pool. available (needsGpt4Key ''gpt-4'') k)
   \<and> get ''gpt-4'' 100 fixture_pool = Inl (Error no_gpt4_keys_message)
   \<and> get ''gpt-3.5-turbo'' 100 [fixture_pool ! 3] = Inl (Error no_keys_message)
   \<and> isDisabled (fixture_pool ! 3) \<and> isGpt4 (fixture_pool ! 3)
   \<and> \<not> needsGpt4Key ''gpt-3.5-turbo''
   \<and> get ''gpt-3.5-turbo'' 100 fixture_pool =
       Inr (DetachedCopy ((fixture_pool ! 1)\<lparr>lastUsed := 100\<rparr>),
            fixture_pool[1 := (fixture_pool ! 1)\<lparr>lastUsed := 100\<rparr>])
   \<and> \<not> isDisabled (fixture_pool ! 1)"
proof -
  have n: "\<forall>k\<in>set fixture_pool. \<not> available (needsGpt4Key ''gpt-4'') k"
    by code_simp
  have g4: "needsGpt4Key ''gpt-4''" "\<not> needsGpt4Key ''gpt-3.5-turbo''"
    by code_simp+
  have d: "\<forall>k\<in>set [fixture_pool ! 3]. \<not> available (needsGpt4Key ''gpt-3.5-turbo'') k"
    "isDisabled (fixture_pool ! 3)" "isGpt4 (fixture_pool ! 3)" "\<not> isDisabled (fixture_pool ! 1)"
    by code_simp+
  note t1 = get_fails_without_available_key[of fixture_pool "''gpt-4''" 100]
  note t2 = get_fails_without_available_key[of "[fixture_pool ! 3]" "''gpt-3.5-turbo''" 100]
  from t1 n g4 have a: "get ''gpt-4'' 100 fixture_pool = Inl (Error no_gpt4_keys_message)"
    by simp
  from t2 d(1) g4 have b: "get ''gpt-3.5-turbo'' 100 [fixture_pool ! 3] = Inl (Error no_keys_message)"
    by simp
  from a b n g4 d fx_get_pool show ?thesis by simp
qed


theorem get_returns_copy_or_pool_record_witness:
  "get ''gpt-3.5-turbo'' 100 fixture_pool =
       Inr (DetachedCopy ((fixture_pool ! 1)\<lparr>lastUsed := 100\<rparr>),
            fixture_pool[1 := (fixture_pool ! 1)\<lparr>lastUsed := 100\<rparr>])
   \<and> incrementPrompt (Some ''sk-b00'') (fixture_pool[1 := (fixture_pool ! 1)\<lparr>lastUsed := 100\<rparr>])
       = Inr (fixture_pool[1 := (fixture_pool ! 1)\<lparr>lastUsed := 100, promptCount := 1\<rparr>])
   \<and> promptCount (read_selected (DetachedCopy ((fixture_pool ! 1)\<lparr>lastUsed := 100\<rparr>))
        (fixture_pool[1 := (fixture_pool ! 1)\<lparr>lastUsed := 100, promptCount := 1\<rparr>])) = 0
   \<and> get ''gpt-3.5-turbo'' 100 fixture_trial_pool =
       Inr (PoolRecord 1,
            fixture_trial_pool[1 := (fixture_trial_pool ! 1)\<lparr>lastUsed := 100\<rparr>])
   \<and> incrementPrompt (Some ''sk-t00'')
         (fixture_trial_pool[1 := (fixture_trial_pool ! 1)\<lparr>lastUsed := 100\<rparr>])
       = Inr (fixture_trial_pool[1 := (fixture_trial_pool ! 1)\<lparr>lastUsed := 100, promptCount := 1\<rparr>])
   \<and> promptCount (read_selected (PoolRecord 1)
        (fixture_trial_pool[1 := (fixture_trial_pool ! 1)\<lparr>lastUsed := 100, promptCount := 1\<rparr>])) = 1"
proof -
  note t1 = get_returns_copy_or_pool_record[OF fx_get_pool]
  note t2 = get_returns_copy_or_pool_record[OF fx_get_trial]
  have i1: "incrementPrompt (Some ''sk-b00'') (fixture_pool[1 := (fixture_pool ! 1)\<lparr>lastUsed := 100\<rparr>])
       = Inr (fixture_pool[1 := (fixture_pool ! 1)\<lparr>lastUsed := 100, promptCount := 1\<rparr>])"
    by code_simp
  have i2: "incrementPrompt (Some ''sk-t00'')
         (fixture_trial_pool[1 := (fixture_trial_pool ! 1)\<lparr>lastUsed := 100\<rparr>])
       = Inr (fixture_trial_pool[1 := (fixture_trial_pool ! 1)\<lparr>lastUsed := 100, promptCount := 1\<rparr>])"
    by code_simp
  have r: "promptCount (read_selected (DetachedCopy ((fixture_pool ! 1)\<lparr>lastUsed := 100\<rparr>))
        (fixture_pool[1 := (fixture_pool ! 1)\<lparr>lastUsed := 100, promptCount := 1\<rparr>])) = 0"
    "promptCount (read_selected (PoolRecord 1)
        (fixture_trial_pool[1 := (fixture_trial_pool ! 1)\<lparr>lastUsed := 100, promptCount := 1\<rparr>])) = 1"
    by (simp_all add: fixture_defs)
  from t1 t2 i1 i2 r fx_get_pool fx_get_trial show ?thesis by simp
qed


text \<open>
  C3, as amended. Where some record has the hash, \<open>update\<close> acts on the first such record:
  the fields that the update supplies replace the record's, \<open>lastChecked\<close> becomes the
  current time, and the other fields and the other records stay. Where no record has the
  hash, \<open>update\<close> throws the \<open>TypeError\<close> of \<open>Object.assign\<close> on \<open>undefined\<close>.
\<close>

theorem update_merges_or_throws:
  "((\<forall>k\<in>set ks. hash k \<noteq> h) \<longrightarrow> update h u now ks = Inl TypeError)
   \<and> ((\<exists>k\<in>set ks. hash k = h) \<longrightarrow>
        (\<exists>i r. i < length ks \<and> hash (ks ! i) = h \<and> (\<forall>j<i. hash (ks ! j) \<noteq> h)
           \<and> update h u now ks = Inr (ks[i := r])
           \<and> isTrial r = (case upd_isTrial u of None \<Rightarrow> isTrial (ks ! i) | Some v \<Rightarrow> v)
           \<and> isGpt4 r = (case upd_isGpt4 u of None \<Rightarrow> isGpt4 (ks ! i) | Some v \<Rightarrow> v)
           \<and> softLimit r = (case upd_softLimit u of None \<Rightarrow> softLimit (ks ! i) | Some v \<Rightarrow> v)
           \<and> hardLimit r = (case upd_hardLimit u of None \<Rightarrow> hardLimit (ks ! i) | Some v \<Rightarrow> v)
           \<and> systemHardLimit r =
               (case upd_systemHardLimit u of None \<Rightarrow> systemHardLimit (ks ! i) | Some v \<Rightarrow> v)
           \<and> usage r = (case upd_usage u of None \<Rightarrow> usage (ks ! i) | Some v \<Rightarrow> v)
           \<and> lastChecked r = now
           \<and> key r = key (ks ! i) \<and> hash r = hash (ks ! i)
           \<and> isDisabled r = isDisabled (ks ! i) \<and> promptCount r = promptCount (ks ! i)
           \<and> lastUsed r = lastUsed (ks ! i)))"
proof (intro conjI impI)
  assume "\<forall>k\<in>set ks. hash k \<noteq> h"
  then have "find_ref (\<lambda>k. hash k = h) ks = None" by (simp add: find_ref_None)
  then show "update h u now ks = Inl TypeError" by (simp add: update_def)
next
  assume "\<exists>k\<in>set ks. hash k = h"
  then have "find_ref (\<lambda>k. hash k = h) ks \<noteq> None" by (simp add: find_ref_None)
  then obtain i where f: "find_ref (\<lambda>k. hash k = h) ks = Some i" by auto
  note p = find_ref_Some[OF f]
  let ?r = "assign_update u now (ks ! i)"
  have "update h u now ks = Inr (ks[i := ?r])" using f by (simp add: update_def)
  with p show "\<exists>i r. i < length ks \<and> hash (ks ! i) = h \<and> (\<forall>j<i. hash (ks ! j) \<noteq> h)
           \<and> update h u now ks = Inr (ks[i := r])
           \<and> isTrial r = (case upd_isTrial u of None \<Rightarrow> isTrial (ks ! i) | Some v \<Rightarrow> v)
           \<and> isGpt4 r = (case upd_isGpt4 u of None \<Rightarrow> isGpt4 (ks ! i) | Some v \<Rightarrow> v)
           \<and> softLimit r = (case upd_softLimit u of None \<Rightarrow> softLimit (ks ! i) | Some v \<Rightarrow> v)
           \<and> hardLimit r = (case upd_hardLimit u of None \<Rightarrow> hardLimit (ks ! i) | Some v \<Rightarrow> v)
           \<and> systemHardLimit r =
               (case upd_systemHardLimit u of None \<Rightarrow> systemHardLimit (ks ! i) | Some v \<Rightarrow> v)
           \<and> usage r = (case upd_usage u of None \<Rightarrow> usage (ks ! i) | Some v \<Rightarrow> v)
           \<and> lastChecked r = now
           \<and> key r = key (ks ! i) \<and> hash r = hash (ks ! i)
           \<and> isDisabled r = isDisabled (ks ! i) \<and> promptCount r = promptCount (ks ! i)
           \<and> lastUsed r = lastUsed (ks ! i)"
    by (intro exI[of _ i] exI[of _ ?r]) (simp add: assign_update_def)
qed


theorem update_merges_or_throws_witness:
  "\<not> (\<exists>k\<in>set fixture_pool. hash k = ''zzzzzz'')
   \<and> update ''zzzzzz'' fixture_update 55 fixture_pool = Inl TypeError
   \<and> (\<exists>k\<in>set fixture_pool. hash k = ''sk-b00'')
   \<and> update ''sk-b00'' fixture_update 55 fixture_pool =
       Inr (fixture_pool[1 := (fixture_pool ! 1)
              \<lparr>isGpt4 := True, hardLimit := 120, usage := 10, lastChecked := 55\<rparr>])"
proof -
  have n: "\<forall>k\<in>set fixture_pool. hash k \<noteq> ''zzzzzz''" by code_simp
  have y: "\<exists>k\<in>set fixture_pool. hash k = ''sk-b00''" by code_simp
  note t1 = update_merges_or_throws[of fixture_pool "''zzzzzz''" fixture_update 55]
  note t2 = update_merges_or_throws[of fixture_pool "''sk-b00''" fixture_update 55]
  from t1 n have a: "update ''zzzzzz'' fixture_update 55 fixture_pool = Inl TypeError" by simp
  have b: "update ''sk-b00'' fixture_update 55 fixture_pool =
       Inr (fixture_pool[1 := (fixture_pool ! 1)
              \<lparr>isGpt4 := True, hardLimit := 120, usage := 10, lastChecked := 55\<rparr>])"
    by code_simp
  from a b n y t2 show ?thesis by simp
qed

text \<open>
  C3 as stated allows a no-op or an error of the pool's own for an unknown hash. The call is
  no no-op, and its failure is the runtime's \<open>TypeError\<close>.
\<close>

theorem update_unknown_hash_counterexample:
  "update ''zzzzzz'' fixture_update 55 fixture_pool = Inl TypeError
   \<and> update ''zzzzzz'' fixture_update 55 fixture_pool \<noteq> Inr fixture_pool
   \<and> \<not> (\<exists>k\<in>set fixture_pool. hash k = ''zzzzzz'')"
  by code_simp

subsection \<open>Construction and listing\<close>

lemma length_split_comma:
  "length (split_comma s) = Suc (length (filter (\<lambda>c. c = CHR 0x2C) s))"
  by (induction s) (auto split: list.splits)

text \<open>
  C4, as amended. The constructor fails, with the message that the variable is not set, exactly
  when the configured string is undefined or blank as a whole. Otherwise it makes one record
  for every entry between commas, in order, blank and repeated entries included: the secret
  is the trimmed entry, the hash is the first six characters of its digest, the record is
  enabled and its usage, limits, counters and time stamps are zero. Records of equal secrets
  are equal, so they share their hash.
\<close>

theorem constructor_one_record_per_entry:
  "isl (constructor digest cfg) = (case cfg of None \<Rightarrow> True | Some s \<Rightarrow> trim s = [])
   \<and> (isl (constructor digest cfg) \<longrightarrow> constructor digest cfg = Inl (Error not_set_message))
   \<and> (\<forall>s. cfg = Some s \<and> trim s \<noteq> [] \<longrightarrow>
        (\<exists>ks. constructor digest cfg = Inr ks
           \<and> length ks = length (split_comma s)
           \<and> length ks = Suc (length (filter (\<lambda>c. c = CHR 0x2C) s))
           \<and> (\<forall>i<length ks.
                 key (ks ! i) = trim (split_comma s ! i)
                 \<and> hash (ks ! i) = take 6 (digest (key (ks ! i)))
                 \<and> \<not> isDisabled (ks ! i) \<and> \<not> isTrial (ks ! i) \<and> \<not> isGpt4 (ks ! i)
                 \<and> usage (ks ! i) = 0 \<and> softLimit (ks ! i) = 0 \<and> hardLimit (ks ! i) = 0
                 \<and> systemHardLimit (ks ! i) = 0 \<and> promptCount (ks ! i) = 0
                 \<and> lastUsed (ks ! i) = 0 \<and> lastChecked (ks ! i) = 0)
           \<and> (\<forall>i<length ks. \<forall>j<length ks.
                 key (ks ! i) = key (ks ! j) \<longrightarrow> ks ! i = ks ! j)))"
proof (intro conjI allI impI)
  show "isl (constructor digest cfg) = (case cfg of None \<Rightarrow> True | Some s \<Rightarrow> trim s = [])"
    by (simp add: constructor_def split: option.splits)
next
  assume "isl (constructor digest cfg)"
  then show "constructor digest cfg = Inl (Error not_set_message)"
    by (auto simp: constructor_def split: option.splits if_splits)
next
  fix s
  assume a: "cfg = Some s \<and> trim s \<noteq> []"
  let ?ks = "map (newKey digest) (map trim (split_comma s))"
  have c: "constructor digest cfg = Inr ?ks" using a by (simp add: constructor_def)
  have l: "length ?ks = length (split_comma s)" by simp
  have f: "\<forall>i<length ?ks. ?ks ! i = newKey digest (trim (split_comma s ! i))" by simp
  have "length ?ks = length (split_comma s)
           \<and> length ?ks = Suc (length (filter (\<lambda>c. c = CHR 0x2C) s))
           \<and> (\<forall>i<length ?ks.
                 key (?ks ! i) = trim (split_comma s ! i)
                 \<and> hash (?ks ! i) = take 6 (digest (key (?ks ! i)))
                 \<and> \<not> isDisabled (?ks ! i) \<and> \<not> isTrial (?ks ! i) \<and> \<not> isGpt4 (?ks ! i)
                 \<and> usage (?ks ! i) = 0 \<and> softLimit (?ks ! i) = 0 \<and> hardLimit (?ks ! i) = 0
                 \<and> systemHardLimit (?ks ! i) = 0 \<and> promptCount (?ks ! i) = 0
                 \<and> lastUsed (?ks ! i) = 0 \<and> lastChecked (?ks ! i) = 0)
           \<and> (\<forall>i<length ?ks. \<forall>j<length ?ks.
                 key (?ks ! i) = key (?ks ! j) \<longrightarrow> ?ks ! i = ?ks ! j)"
    by (simp add: length_split_comma newKey_def)
  with c show "\<exists>ks. constructor digest cfg = Inr ks
           \<and> length ks = length (split_comma s)
           \<and> length ks = Suc (length (filter (\<lambda>c. c = CHR 0x2C) s))
           \<and> (\<forall>i<length ks.
                 key (ks ! i) = trim (split_comma s ! i)
                 \<and> hash (ks ! i) = take 6 (digest (key (ks ! i)))
                 \<and> \<not> isDisabled (ks ! i) \<and> \<not> isTrial (ks ! i) \<and> \<not> isGpt4 (ks ! i)
                 \<and> usage (ks ! i) = 0 \<and> softLimit (ks ! i) = 0 \<and> hardLimit (ks ! i) = 0
                 \<and> systemHardLimit (ks ! i) = 0 \<and> promptCount (ks ! i) = 0
                 \<and> lastUsed (ks ! i) = 0 \<and> lastChecked (ks ! i) = 0)
           \<and> (\<forall>i<length ks. \<forall>j<length ks.
                 key (ks ! i) = key (ks ! j) \<longrightarrow> ks ! i = ks ! j)"
    by blast
qed

theorem constructor_one_record_per_entry_witness:
  "isl (constructor fixture_digest None)
   \<and> isl (constructor fixture_digest (Some ''  ''))
   \<and> constructor fixture_digest (Some ''  '') = Inl (Error not_set_message)
   \<and> trim '' sk-a,sk-b ,, sk-a'' \<noteq> []
   \<and> constructor fixture_digest (Some '' sk-a,sk-b ,, sk-a'') =
       Inr [newKey fixture_digest ''sk-a'', newKey fixture_digest ''sk-b'',
            newKey fixture_digest [], newKey fixture_digest ''sk-a'']"
proof -
  note t1 = constructor_one_record_per_entry[of fixture_digest None]
  note t2 = constructor_one_record_per_entry[of fixture_digest "Some ''  ''"]
  note t3 = constructor_one_record_per_entry[of fixture_digest "Some '' sk-a,sk-b ,, sk-a''"]
  have b: "trim ''  '' = []" "trim '' sk-a,sk-b ,, sk-a'' \<noteq> []" by code_simp+
  have c: "constructor fixture_digest (Some '' sk-a,sk-b ,, sk-a'') =
       Inr [newKey fixture_digest ''sk-a'', newKey fixture_digest ''sk-b'',
            newKey fixture_digest [], newKey fixture_digest ''sk-a'']"
    by code_simp
  from t1 have 1: "isl (constructor fixture_digest None)" by simp
  from t2 b(1) have 2: "isl (constructor fixture_digest (Some ''  ''))"
    "constructor fixture_digest (Some ''  '') = Inl (Error not_set_message)" by simp_all
  from 1 2 b(2) c t3 show ?thesis by simp
qed

text \<open>
  C4 as stated fails on the configuration \<open>,\<close>, whose two entries are blank: the
  constructor succeeds, with two records of empty secret. It fails on \<open>sk-a, sk-a\<close> too:
  one distinct entry, two records, and their hashes are not distinct.
\<close>

theorem constructor_blank_and_duplicate_entries_counterexample:
  "list_all (\<lambda>e. trim e = []) (split_comma '','')
   \<and> constructor fixture_digest (Some '','') =
       Inr [newKey fixture_digest [], newKey fixture_digest []]
   \<and> remdups (map trim (split_comma ''sk-a, sk-a'')) = [''sk-a'']
   \<and> constructor fixture_digest (Some ''sk-a, sk-a'') =
       Inr [newKey fixture_digest ''sk-a'', newKey fixture_digest ''sk-a'']
   \<and> \<not> distinct (map hash [newKey fixture_digest ''sk-a'', newKey fixture_digest ''sk-a''])"
  by code_simp

lemma listed_ignores_secret: "listed (k\<lparr>key := s\<rparr>) = listed k"
  by (simp add: listed_def)

lemma list_keys_ignores_secrets:
  "list_keys (map (\<lambda>k. k\<lparr>key := secret k\<rparr>) ks) = list_keys ks"
  by (simp add: list_keys_def listed_ignores_secret)

lemma listed_fields:
  "key (listed k) = None" "hash (listed k) = hash k" "isTrial (listed k) = isTrial k"
  "isGpt4 (listed k) = isGpt4 k" "isDisabled (listed k) = isDisabled k"
  "softLimit (listed k) = softLimit k" "hardLimit (listed k) = hardLimit k"
  "systemHardLimit (listed k) = systemHardLimit k" "usage (listed k) = usage k"
  "promptCount (listed k) = promptCount k" "lastUsed (listed k) = lastUsed k"
  "lastChecked (listed k) = lastChecked k"
  by (simp_all add: listed_def)

text \<open>
  C9. \<open>list\<close> returns one entry for every record of the pool, in order. The \<open>key\<close> of an
  entry is undefined and its other fields are the record's; the listing, and the service
  information derived from it, are the same whatever the secrets of the pool are. An
  assignment to a field of an entry changes neither the listing nor the pool.
\<close>

theorem list_keys_hides_secret_and_is_detached:
  "length (list_keys ks) = length ks
   \<and> (\<forall>i<length ks.
         key (list_keys ks ! i) = None
         \<and> hash (list_keys ks ! i) = hash (ks ! i)
         \<and> isTrial (list_keys ks ! i) = isTrial (ks ! i)
         \<and> isGpt4 (list_keys ks ! i) = isGpt4 (ks ! i)
         \<and> isDisabled (list_keys ks ! i) = isDisabled (ks ! i)
         \<and> softLimit (list_keys ks ! i) = softLimit (ks ! i)
         \<and> hardLimit (list_keys ks ! i) = hardLimit (ks ! i)
         \<and> systemHardLimit (list_keys ks ! i) = systemHardLimit (ks ! i)
         \<and> usage (list_keys ks ! i) = usage (ks ! i)
         \<and> promptCount (list_keys ks ! i) = promptCount (ks ! i)
         \<and> lastUsed (list_keys ks ! i) = lastUsed (ks ! i)
         \<and> lastChecked (list_keys ks ! i) = lastChecked (ks ! i))
   \<and> list_keys (map (\<lambda>k. k\<lparr>key := secret k\<rparr>) ks) = list_keys ks
   \<and> getInfoKeys (list_keys (map (\<lambda>k. k\<lparr>key := secret k\<rparr>) ks)) = getInfoKeys (list_keys ks)
   \<and> (\<forall>strict f i. snd (assign_listed strict f i (list_keys ks, ks)) = (list_keys ks, ks))"
  by (simp add: list_keys_ignores_secrets assign_listed_def)
    (simp add: list_keys_def listed_fields)

theorem list_keys_hides_secret_and_is_detached_witness:
  "length (list_keys fixture_pool) = 4
   \<and> key (fixture_pool ! 1) = ''sk-b''
   \<and> key (list_keys fixture_pool ! 1) = None
   \<and> hash (list_keys fixture_pool ! 1) = ''sk-b00''
   \<and> lastUsed (list_keys fixture_pool ! 1) = 3
   \<and> snd (assign_listed True (\<lambda>k. k\<lparr>isDisabled := True\<rparr>) 1 (list_keys fixture_pool, fixture_pool))
       = (list_keys fixture_pool, fixture_pool)
   \<and> info_active (getInfoKeys (list_keys fixture_pool)) = 3"
proof -
  note t = list_keys_hides_secret_and_is_detached[of fixture_pool]
  have l: "length fixture_pool = 4" "(1::nat) < 4" by code_simp+
  have e: "key (fixture_pool ! 1) = ''sk-b''" "hash (fixture_pool ! 1) = ''sk-b00''"
    "lastUsed (fixture_pool ! 1) = 3" "info_active (getInfoKeys (list_keys fixture_pool)) = 3"
    by code_simp+
  from t l e show ?thesis by simp
qed

section \<open>Properties of the response translation stage\<close>

lemma kobold_well_formed:
  "koboldResponse (JObject [(''choices'', JArray [JObject [(''message'',
                 JObject [(''content'', JString t)])]]), (''model'', JString m)])
   = Inr (JObject [(''results'', JArray [JObject [(''text'', JString t)]]),
              (''model'', JString m)])"
  by (simp add: koboldResponse_def completion_content_def and_then_def lookup_def)

lemma kobold_general:
  assumes "map_of props ''choices'' = Some (JArray (JObject cprops # rest))"
    and "map_of cprops ''message'' = Some (JObject mprops)"
    and "map_of mprops ''content'' = Some content"
    and "map_of props ''model'' = Some model"
  shows "koboldResponse (JObject props) =
     Inr (JObject [(''results'', JArray [JObject [(''text'', content)]]), (''model'', model)])"
  using assms
  by (simp add: koboldResponse_def completion_content_def and_then_def lookup_def)

lemma on_end_unfold:
  "on_end rt proxyRes =
     (case decode_body rt (up_headers proxyRes ''content-encoding'') (up_body proxyRes) of
        Inl e \<Rightarrow> Inl e
      | Inr body \<Rightarrow>
          (case json_parse rt body of
             None \<Rightarrow> Inl SyntaxError
           | Some response \<Rightarrow>
               (case koboldResponse response of
                  Inl e \<Rightarrow> Inl e
                | Inr kobold \<Rightarrow>
                    Inr (send_reply rt (up_headers proxyRes ''content-encoding'') kobold))))"
  by (simp add: on_end_def and_then_def Let_def split: sum.splits option.splits)

lemma stage_throws:
  assumes "\<not> downstreamError proxyRes" "on_end rt proxyRes = Inl e"
  shows "thrown (handleProxiedResponse rt proxyRes req ks) = Some e"
    "client_body (handleProxiedResponse rt proxyRes req ks) = None"
    "pool_after (handleProxiedResponse rt proxyRes req ks) = incrementKeyUsage req ks"
  using assms by (simp_all add: handleProxiedResponse_def Let_def)

lemma stage_sends:
  assumes "\<not> downstreamError proxyRes" "on_end rt proxyRes = Inr (enc, payload)"
  shows "thrown (handleProxiedResponse rt proxyRes req ks) = None"
    "client_body (handleProxiedResponse rt proxyRes req ks) = Some payload"
    "pool_after (handleProxiedResponse rt proxyRes req ks) = incrementKeyUsage req ks"
    "client_headers (handleProxiedResponse rt proxyRes req ks) ''content-encoding'' =
       (case enc of None \<Rightarrow> up_headers proxyRes ''content-encoding'' | Some v \<Rightarrow> Some v)"
  using assms
  by (simp_all add: handleProxiedResponse_def Let_def copyHttpHeaders_def split: option.splits)

text \<open>
  C8. Take a successful upstream response whose body, decoded as its \<open>Content-Encoding\<close>
  says (gzip, deflate, or identity, named or not), parses as an object whose \<open>choices\<close>
  start with an object whose \<open>message\<close> is an object with a \<open>content\<close>, and which
  has a \<open>model\<close>, whatever else the response, the choice and the message hold and
  whatever choices follow; and take a \<open>zlib\<close> whose decoders undo its encoders. The stage
  throws nothing and sends a body that, decoded with the same encoding, is the serialization
  of \<open>{results: [{text: content}], model: model}\<close>, and the \<open>Content-Encoding\<close> of the
  client response is that of the upstream response.
\<close>

theorem well_formed_response_round_trip:
  assumes ok: "\<not> downstreamError proxyRes"
    and ce: "up_headers proxyRes ''content-encoding'' = ce"
    and delivered:
      "(ce = Some ''gzip'' \<and> gunzip rt (up_body proxyRes) = Some text)
       \<or> (ce = Some ''deflate'' \<and> inflate rt (up_body proxyRes) = Some text)
       \<or> ((ce = Some ''identity'' \<or> ce = None) \<and> up_body proxyRes = text)"
    and parsed: "json_parse rt text = Some (JObject props)"
    and choices: "map_of props ''choices'' = Some (JArray (JObject cprops # rest))"
    and message: "map_of cprops ''message'' = Some (JObject mprops)"
    and content: "map_of mprops ''content'' = Some content"
    and model: "map_of props ''model'' = Some model"
    and codec: "\<forall>x. gunzip rt (gzip rt x) = Some x" "\<forall>x. inflate rt (deflate rt x) = Some x"
  shows "\<exists>b. client_body (handleProxiedResponse rt proxyRes req ks) = Some b
     \<and> thrown (handleProxiedResponse rt proxyRes req ks) = None
     \<and> client_headers (handleProxiedResponse rt proxyRes req ks) ''content-encoding'' = ce
     \<and> (if ce = Some ''gzip'' then gunzip rt b else
         if ce = Some ''deflate'' then inflate rt b else Some b)
        = Some (json_stringify rt
            (JObject [(''results'', JArray [JObject [(''text'', content)]]),
                      (''model'', model)]))"
proof -
  let ?legacy = "JObject [(''results'', JArray [JObject [(''text'', content)]]),
                      (''model'', model)]"
  have dec: "decode_body rt ce (up_body proxyRes) = Inr text"
    using delivered by (auto simp: decode_body_def)
  have k: "koboldResponse (JObject props) = Inr ?legacy"
    using choices message content model by (rule kobold_general)
  have e: "on_end rt proxyRes = Inr (send_reply rt ce ?legacy)"
    using dec parsed ce k by (simp add: on_end_unfold)
  obtain enc payload where sr: "send_reply rt ce ?legacy = (enc, payload)"
    by (cases "send_reply rt ce ?legacy")
  note s = stage_sends[OF ok e[unfolded sr], of req ks]
  have h: "(case enc of None \<Rightarrow> up_headers proxyRes ''content-encoding'' | Some v \<Rightarrow> Some v) = ce"
    using sr ce by (auto simp: send_reply_def split: if_splits option.splits)
  have p: "(if ce = Some ''gzip'' then gunzip rt payload else
         if ce = Some ''deflate'' then inflate rt payload else Some payload)
        = Some (json_stringify rt ?legacy)"
    using sr codec by (auto simp: send_reply_def split: if_splits)
  from s h p show ?thesis by simp
qed

theorem well_formed_response_round_trip_witness:
  "\<not> downstreamError (fixture_response (Some ''gzip'') (Gzipped (JsonText fixture_provider_response)))
   \<and> gunzip fixture_runtime (Gzipped (JsonText fixture_provider_response))
        = Some (JsonText fixture_provider_response)
   \<and> json_parse fixture_runtime (JsonText fixture_provider_response)
        = Some fixture_provider_response
   \<and> client_body (handleProxiedResponse fixture_runtime
        (fixture_response (Some ''gzip'') (Gzipped (JsonText fixture_provider_response)))
        fixture_request fixture_pool) = Some (Gzipped (JsonText fixture_legacy))
   \<and> client_headers (handleProxiedResponse fixture_runtime
        (fixture_response (Some ''gzip'') (Gzipped (JsonText fixture_provider_response)))
        fixture_request fixture_pool) ''content-encoding'' = Some ''gzip''
   \<and> gunzip fixture_runtime (Gzipped (JsonText fixture_legacy))
        = Some (json_stringify fixture_runtime fixture_legacy)
   \<and> client_body (handleProxiedResponse fixture_runtime
        (fixture_response None (JsonText fixture_completion))
        fixture_request fixture_pool) = Some (JsonText fixture_legacy)
   \<and> client_headers (handleProxiedResponse fixture_runtime
        (fixture_response None (JsonText fixture_completion))
        fixture_request fixture_pool) ''content-encoding'' = None"
proof -
  let ?pr = "fixture_response (Some ''gzip'') (Gzipped (JsonText fixture_provider_response))"
  let ?id = "fixture_response None (JsonText fixture_completion)"
  let ?props = "[(''id'', JString ''chatcmpl-1''),
        (''object'', JString ''chat.completion''),
        (''created'', JNumber 1680000000),
        (''model'', JString ''gpt-x''),
        (''usage'', JObject [(''prompt_tokens'', JNumber 9), (''completion_tokens'', JNumber 2),
                            (''total_tokens'', JNumber 11)]),
        (''choices'',
           JArray
             [JObject [(''index'', JNumber 0),
                       (''message'', JObject [(''role'', JString ''assistant''),
                                              (''content'', JString ''hello'')]),
                       (''finish_reason'', JString ''stop'')],
              JObject [(''index'', JNumber 1),
                       (''message'', JObject [(''role'', JString ''assistant''),
                                              (''content'', JString ''bye'')]),
                       (''finish_reason'', JString ''stop'')]])]"
  let ?cprops = "[(''index'', JNumber 0),
                       (''message'', JObject [(''role'', JString ''assistant''),
                                              (''content'', JString ''hello'')]),
                       (''finish_reason'', JString ''stop'')]"
  let ?rest = "[JObject [(''index'', JNumber 1),
                       (''message'', JObject [(''role'', JString ''assistant''),
                                              (''content'', JString ''bye'')]),
                       (''finish_reason'', JString ''stop'')]]"
  let ?mprops = "[(''role'', JString ''assistant''), (''content'', JString ''hello'')]"
  have ok: "\<not> downstreamError ?pr" "\<not> downstreamError ?id"
    by (simp_all add: fixture_response_def)
  have ce: "up_headers ?pr ''content-encoding'' = Some ''gzip''"
    "up_headers ?id ''content-encoding'' = None"
    by (simp_all add: fixture_response_def)
  have d: "(Some ''gzip'' = Some ''gzip''
         \<and> gunzip fixture_runtime (up_body ?pr) = Some (JsonText fixture_provider_response))
       \<or> (Some ''gzip'' = Some ''deflate''
         \<and> inflate fixture_runtime (up_body ?pr) = Some (JsonText fixture_provider_response))
       \<or> ((Some ''gzip'' = Some ''identity'' \<or> Some ''gzip'' = None)
         \<and> up_body ?pr = JsonText fixture_provider_response)"
    by (simp add: fixture_response_def fixture_runtime_def)
  have d': "((None :: string option) = Some ''gzip''
         \<and> gunzip fixture_runtime (up_body ?id) = Some (JsonText fixture_completion))
       \<or> ((None :: string option) = Some ''deflate''
         \<and> inflate fixture_runtime (up_body ?id) = Some (JsonText fixture_completion))
       \<or> (((None :: string option) = Some ''identity'' \<or> (None :: string option) = None)
         \<and> up_body ?id = JsonText fixture_completion)"
    by (simp add: fixture_response_def)
  have p: "json_parse fixture_runtime (JsonText fixture_provider_response) = Some (JObject ?props)"
    by (simp add: fixture_runtime_def fixture_provider_response_def)
  have p': "json_parse fixture_runtime (JsonText fixture_completion) =
      Some (JObject [(''choices'', JArray [JObject [(''message'',
                 JObject [(''content'', JString ''hello'')])]]), (''model'', JString ''gpt-x'')])"
    by (simp add: fixture_runtime_def fixture_completion_def)
  have m: "map_of ?props ''choices'' = Some (JArray (JObject ?cprops # ?rest))"
    "map_of ?cprops ''message'' = Some (JObject ?mprops)"
    "map_of ?mprops ''content'' = Some (JString ''hello'')"
    "map_of ?props ''model'' = Some (JString ''gpt-x'')"
    by simp_all
  have m': "map_of [(''choices'', JArray [JObject [(''message'',
                 JObject [(''content'', JString ''hello'')])]]), (''model'', JString ''gpt-x'')]
        ''choices'' = Some (JArray (JObject [(''message'',
                 JObject [(''content'', JString ''hello'')])] # []))"
    "map_of [(''message'', JObject [(''content'', JString ''hello'')])] ''message''
        = Some (JObject [(''content'', JString ''hello'')])"
    "map_of [(''content'', JString ''hello'')] ''content'' = Some (JString ''hello'')"
    "map_of [(''choices'', JArray [JObject [(''message'',
                 JObject [(''content'', JString ''hello'')])]]), (''model'', JString ''gpt-x'')]
        ''model'' = Some (JString ''gpt-x'')"
    by simp_all
  have c: "\<forall>x. gunzip fixture_runtime (gzip fixture_runtime x) = Some x"
    "\<forall>x. inflate fixture_runtime (deflate fixture_runtime x) = Some x"
    by (simp_all add: fixture_runtime_def)
  note t = well_formed_response_round_trip[OF ok(1) ce(1) d p m c, of fixture_request fixture_pool]
  note t' = well_formed_response_round_trip[OF ok(2) ce(2) d' p' m' c, of fixture_request fixture_pool]
  have g: "\<And>b. gunzip fixture_runtime b = Some (JsonText fixture_legacy)
      \<Longrightarrow> b = Gzipped (JsonText fixture_legacy)"
    by (simp add: fixture_runtime_def split: wire.splits)
  from t g have 1: "client_body (handleProxiedResponse fixture_runtime ?pr fixture_request fixture_pool)
      = Some (Gzipped (JsonText fixture_legacy))
     \<and> client_headers (handleProxiedResponse fixture_runtime ?pr fixture_request fixture_pool)
          ''content-encoding'' = Some ''gzip''"
    by (auto simp: fixture_legacy_def fixture_runtime_def)
  from t' have 2: "client_body (handleProxiedResponse fixture_runtime ?id fixture_request fixture_pool)
      = Some (JsonText fixture_legacy)
     \<and> client_headers (handleProxiedResponse fixture_runtime ?id fixture_request fixture_pool)
          ''content-encoding'' = None"
    by (auto simp: fixture_legacy_def fixture_runtime_def)
  from ok 1 2 show ?thesis
    by (simp add: fixture_runtime_def fixture_response_def)
qed

lemma decode_other:
  "ce \<noteq> Some ''gzip'' \<Longrightarrow> ce \<noteq> Some ''deflate'' \<Longrightarrow> decode_body rt ce body = Inr body"
  by (simp add: decode_body_def)

lemma send_other:
  "ce \<noteq> Some ''gzip'' \<Longrightarrow> ce \<noteq> Some ''deflate'' \<Longrightarrow>
     send_reply rt ce kobold = (None, json_stringify rt kobold)"
  by (simp add: send_reply_def)

text \<open>
  C7, as amended. For a successful upstream response the stage unzips the body when
  \<open>Content-Encoding\<close> is \<open>gzip\<close>, inflates it when it is \<open>deflate\<close>, and compresses its
  reply in the same way. Every other value, like no value, is taken as identity: the body is
  parsed as it is, and where it parses and has a completion, the reply is the serialization
  of the legacy response, not compressed, under the \<open>Content-Encoding\<close> of the upstream
  response. No value of \<open>Content-Encoding\<close> is rejected.
\<close>

theorem other_encodings_are_taken_as_identity:
  assumes "\<not> downstreamError proxyRes"
    and "up_headers proxyRes ''content-encoding'' = ce"
  shows "(ce = Some ''gzip'' \<longrightarrow>
            (case gunzip rt (up_body proxyRes) of
               None \<Rightarrow> thrown (handleProxiedResponse rt proxyRes req ks) = Some ZlibError
             | Some body \<Rightarrow>
                 (case json_parse rt body of
                    None \<Rightarrow> thrown (handleProxiedResponse rt proxyRes req ks) = Some SyntaxError
                  | Some response \<Rightarrow>
                      (case koboldResponse response of
                         Inl e \<Rightarrow> thrown (handleProxiedResponse rt proxyRes req ks) = Some e
                       | Inr kobold \<Rightarrow>
                           client_body (handleProxiedResponse rt proxyRes req ks)
                             = Some (gzip rt (json_stringify rt kobold))))))
       \<and> (ce = Some ''deflate'' \<longrightarrow>
            (case inflate rt (up_body proxyRes) of
               None \<Rightarrow> thrown (handleProxiedResponse rt proxyRes req ks) = Some ZlibError
             | Some body \<Rightarrow>
                 (case json_parse rt body of
                    None \<Rightarrow> thrown (handleProxiedResponse rt proxyRes req ks) = Some SyntaxError
                  | Some response \<Rightarrow>
                      (case koboldResponse response of
                         Inl e \<Rightarrow> thrown (handleProxiedResponse rt proxyRes req ks) = Some e
                       | Inr kobold \<Rightarrow>
                           client_body (handleProxiedResponse rt proxyRes req ks)
                             = Some (deflate rt (json_stringify rt kobold))))))
       \<and> (ce \<noteq> Some ''gzip'' \<and> ce \<noteq> Some ''deflate'' \<longrightarrow>
            (case json_parse rt (up_body proxyRes) of
               None \<Rightarrow> thrown (handleProxiedResponse rt proxyRes req ks) = Some SyntaxError
             | Some response \<Rightarrow>
                 (case koboldResponse response of
                    Inl e \<Rightarrow> thrown (handleProxiedResponse rt proxyRes req ks) = Some e
                  | Inr kobold \<Rightarrow>
                      thrown (handleProxiedResponse rt proxyRes req ks) = None
                      \<and> client_body (handleProxiedResponse rt proxyRes req ks)
                            = Some (json_stringify rt kobold)
                      \<and> client_headers (handleProxiedResponse rt proxyRes req ks)
                            ''content-encoding'' = ce)))"
proof (intro conjI impI)
  assume g: "ce = Some ''gzip''"
  show "case gunzip rt (up_body proxyRes) of
               None \<Rightarrow> thrown (handleProxiedResponse rt proxyRes req ks) = Some ZlibError
             | Some body \<Rightarrow>
                 (case json_parse rt body of
                    None \<Rightarrow> thrown (handleProxiedResponse rt proxyRes req ks) = Some SyntaxError
                  | Some response \<Rightarrow>
                      (case koboldResponse response of
                         Inl e \<Rightarrow> thrown (handleProxiedResponse rt proxyRes req ks) = Some e
                       | Inr kobold \<Rightarrow>
                           client_body (handleProxiedResponse rt proxyRes req ks)
                             = Some (gzip rt (json_stringify rt kobold))))"
    using assms g
    by (auto simp: handleProxiedResponse_def Let_def on_end_unfold decode_body_def send_reply_def
        split: option.splits sum.splits)
next
  assume d: "ce = Some ''deflate''"
  show "case inflate rt (up_body proxyRes) of
               None \<Rightarrow> thrown (handleProxiedResponse rt proxyRes req ks) = Some ZlibError
             | Some body \<Rightarrow>
                 (case json_parse rt body of
                    None \<Rightarrow> thrown (handleProxiedResponse rt proxyRes req ks) = Some SyntaxError
                  | Some response \<Rightarrow>
                      (case koboldResponse response of
                         Inl e \<Rightarrow> thrown (handleProxiedResponse rt proxyRes req ks) = Some e
                       | Inr kobold \<Rightarrow>
                           client_body (handleProxiedResponse rt proxyRes req ks)
                             = Some (deflate rt (json_stringify rt kobold))))"
    using assms d
    by (auto simp: handleProxiedResponse_def Let_def on_end_unfold decode_body_def send_reply_def
        split: option.splits sum.splits)
next
  assume o: "ce \<noteq> Some ''gzip'' \<and> ce \<noteq> Some ''deflate''"
  have e: "on_end rt proxyRes =
     (case json_parse rt (up_body proxyRes) of
             None \<Rightarrow> Inl SyntaxError
           | Some response \<Rightarrow>
               (case koboldResponse response of
                  Inl e \<Rightarrow> Inl e
                | Inr kobold \<Rightarrow> Inr (None, json_stringify rt kobold)))"
    using o assms(2)
    by (simp add: on_end_unfold decode_other send_other split: option.splits sum.splits)
  show "case json_parse rt (up_body proxyRes) of
               None \<Rightarrow> thrown (handleProxiedResponse rt proxyRes req ks) = Some SyntaxError
             | Some response \<Rightarrow>
                 (case koboldResponse response of
                    Inl e \<Rightarrow> thrown (handleProxiedResponse rt proxyRes req ks) = Some e
                  | Inr kobold \<Rightarrow>
                      thrown (handleProxiedResponse rt proxyRes req ks) = None
                      \<and> client_body (handleProxiedResponse rt proxyRes req ks)
                            = Some (json_stringify rt kobold)
                      \<and> client_headers (handleProxiedResponse rt proxyRes req ks)
                            ''content-encoding'' = ce)"
    using assms e
    by (auto simp: handleProxiedResponse_def Let_def copyHttpHeaders_def
        split: option.splits sum.splits)
qed

theorem other_encodings_are_taken_as_identity_witness:
  "\<not> downstreamError (fixture_response (Some ''br'') (JsonText fixture_completion))
   \<and> up_headers (fixture_response (Some ''br'') (JsonText fixture_completion))
        ''content-encoding'' = Some ''br''
   \<and> thrown (handleProxiedResponse fixture_runtime
        (fixture_response (Some ''br'') (JsonText fixture_completion))
        fixture_request fixture_pool) = None
   \<and> client_body (handleProxiedResponse fixture_runtime
        (fixture_response (Some ''br'') (JsonText fixture_completion))
        fixture_request fixture_pool) = Some (JsonText fixture_legacy)
   \<and> client_headers (handleProxiedResponse fixture_runtime
        (fixture_response (Some ''br'') (JsonText fixture_completion))
        fixture_request fixture_pool) ''content-encoding'' = Some ''br''
   \<and> thrown (handleProxiedResponse fixture_runtime
        (fixture_response (Some ''gzip'') Junk) fixture_request fixture_pool) = Some ZlibError
   \<and> client_body (handleProxiedResponse fixture_runtime
        (fixture_response (Some ''deflate'') (Deflated (JsonText fixture_completion)))
        fixture_request fixture_pool) = Some (Deflated (JsonText fixture_legacy))"
proof -
  let ?br = "fixture_response (Some ''br'') (JsonText fixture_completion)"
  let ?gz = "fixture_response (Some ''gzip'') Junk"
  let ?df = "fixture_response (Some ''deflate'') (Deflated (JsonText fixture_completion))"
  have ok: "\<not> downstreamError ?br" "\<not> downstreamError ?gz" "\<not> downstreamError ?df"
    by (simp_all add: fixture_response_def)
  have ce: "up_headers ?br ''content-encoding'' = Some ''br''"
    "up_headers ?gz ''content-encoding'' = Some ''gzip''"
    "up_headers ?df ''content-encoding'' = Some ''deflate''"
    by (simp_all add: fixture_response_def)
  have k: "koboldResponse fixture_completion = Inr fixture_legacy"
    by (simp add: fixture_completion_def fixture_legacy_def kobold_well_formed)
  have b: "up_body ?br = JsonText fixture_completion" "up_body ?gz = Junk"
    "up_body ?df = Deflated (JsonText fixture_completion)"
    by (simp_all add: fixture_response_def)
  have r: "json_parse fixture_runtime (JsonText fixture_completion) = Some fixture_completion"
    "gunzip fixture_runtime Junk = None"
    "inflate fixture_runtime (Deflated (JsonText fixture_completion)) = Some (JsonText fixture_completion)"
    "json_stringify fixture_runtime fixture_legacy = JsonText fixture_legacy"
    "deflate fixture_runtime (JsonText fixture_legacy) = Deflated (JsonText fixture_legacy)"
    by (simp_all add: fixture_runtime_def)
  note t1 = other_encodings_are_taken_as_identity[OF ok(1) ce(1), of fixture_runtime fixture_request fixture_pool]
  note t2 = other_encodings_are_taken_as_identity[OF ok(2) ce(2), of fixture_runtime fixture_request fixture_pool]
  note t3 = other_encodings_are_taken_as_identity[OF ok(3) ce(3), of fixture_runtime fixture_request fixture_pool]
  from t1 b r k have 1: "thrown (handleProxiedResponse fixture_runtime ?br fixture_request fixture_pool) = None
    \<and> client_body (handleProxiedResponse fixture_runtime ?br fixture_request fixture_pool) = Some (JsonText fixture_legacy)
    \<and> client_headers (handleProxiedResponse fixture_runtime ?br fixture_request fixture_pool) ''content-encoding'' = Some ''br''"
    by simp
  from t2 b r have 2: "thrown (handleProxiedResponse fixture_runtime ?gz fixture_request fixture_pool) = Some ZlibError"
    by simp
  from t3 b r k have 3: "client_body (handleProxiedResponse fixture_runtime ?df fixture_request fixture_pool)
      = Some (Deflated (JsonText fixture_legacy))"
    by simp
  from ok ce 1 2 3 show ?thesis by simp
qed

text \<open>
  C7 as stated fails for \<open>Content-Encoding: br\<close> on a body that is plain JSON text: the
  stage throws nothing and sends the legacy response.
\<close>

theorem unsupported_encoding_counterexample:
  "up_headers (fixture_response (Some ''br'') (JsonText fixture_completion))
        ''content-encoding'' = Some ''br''
   \<and> \<not> downstreamError (fixture_response (Some ''br'') (JsonText fixture_completion))
   \<and> thrown (handleProxiedResponse fixture_runtime
        (fixture_response (Some ''br'') (JsonText fixture_completion))
        fixture_request fixture_pool) = None
   \<and> client_body (handleProxiedResponse fixture_runtime
        (fixture_response (Some ''br'') (JsonText fixture_completion))
        fixture_request fixture_pool) = Some (JsonText fixture_legacy)"
  by code_simp

lemma kobold_lacks_completion:
  assumes "map_of props ''choices'' = None \<or> map_of props ''choices'' = Some (JArray [])
     \<or> (\<exists>cprops rest. map_of props ''choices'' = Some (JArray (JObject cprops # rest))
            \<and> map_of cprops ''message'' = None)"
  shows "koboldResponse (JObject props) = Inl TypeError"
  using assms
  by (auto simp: koboldResponse_def completion_content_def and_then_def lookup_def)

lemma kobold_lacks_content:
  assumes "map_of props ''choices'' = Some (JArray (JObject cprops # rest))"
    and "map_of cprops ''message'' = Some (JObject mprops)"
    and "map_of mprops ''content'' = None"
  shows "koboldResponse (JObject props) =
     Inr (JObject ((''results'', JArray [JObject []]) # object_of [(''model'', lookup ''model'' props)]))"
  using assms
  by (simp add: koboldResponse_def completion_content_def and_then_def lookup_def)

text \<open>
  C2, as amended. For every successful upstream response the usage accounting is done, whatever
  the body is: \<open>incrementKeyUsage\<close> runs before the body is read. Where the parsed body is
  an object with no \<open>choices\<close>, with empty \<open>choices\<close>, or whose first choice has no
  \<open>message\<close>, the stage throws a \<open>TypeError\<close> and sends no body. Where the first choice
  has a message without \<open>content\<close>, the stage throws nothing and sends a result without
  text.
\<close>

theorem accounting_precedes_parsing:
  assumes "\<not> downstreamError proxyRes"
  shows "pool_after (handleProxiedResponse rt proxyRes req ks) = incrementKeyUsage req ks
     \<and> (\<forall>body props.
          decode_body rt (up_headers proxyRes ''content-encoding'') (up_body proxyRes) = Inr body
          \<and> json_parse rt body = Some (JObject props)
          \<and> (map_of props ''choices'' = None \<or> map_of props ''choices'' = Some (JArray [])
             \<or> (\<exists>cprops rest. map_of props ''choices'' = Some (JArray (JObject cprops # rest))
                    \<and> map_of cprops ''message'' = None))
          \<longrightarrow> thrown (handleProxiedResponse rt proxyRes req ks) = Some TypeError
              \<and> client_body (handleProxiedResponse rt proxyRes req ks) = None)
     \<and> (\<forall>body props cprops rest mprops.
          decode_body rt (up_headers proxyRes ''content-encoding'') (up_body proxyRes) = Inr body
          \<and> json_parse rt body = Some (JObject props)
          \<and> map_of props ''choices'' = Some (JArray (JObject cprops # rest))
          \<and> map_of cprops ''message'' = Some (JObject mprops)
          \<and> map_of mprops ''content'' = None
          \<longrightarrow> thrown (handleProxiedResponse rt proxyRes req ks) = None
              \<and> client_body (handleProxiedResponse rt proxyRes req ks) =
                  Some (snd (send_reply rt (up_headers proxyRes ''content-encoding'')
                    (JObject ((''results'', JArray [JObject []])
                       # object_of [(''model'', lookup ''model'' props)])))))"
proof (intro conjI allI impI)
  show "pool_after (handleProxiedResponse rt proxyRes req ks) = incrementKeyUsage req ks"
    using assms by (simp add: handleProxiedResponse_def Let_def split: sum.splits prod.splits)
next
  fix body props
  assume a: "decode_body rt (up_headers proxyRes ''content-encoding'') (up_body proxyRes) = Inr body
          \<and> json_parse rt body = Some (JObject props)
          \<and> (map_of props ''choices'' = None \<or> map_of props ''choices'' = Some (JArray [])
             \<or> (\<exists>cprops rest. map_of props ''choices'' = Some (JArray (JObject cprops # rest))
                    \<and> map_of cprops ''message'' = None))"
  then have k: "koboldResponse (JObject props) = Inl TypeError"
    using kobold_lacks_completion by blast
  have "on_end rt proxyRes = Inl TypeError" using a k by (simp add: on_end_unfold)
  from stage_throws(1,2)[OF assms this]
  show "thrown (handleProxiedResponse rt proxyRes req ks) = Some TypeError"
    "client_body (handleProxiedResponse rt proxyRes req ks) = None" by simp_all
next
  fix body props cprops rest mprops
  assume a: "decode_body rt (up_headers proxyRes ''content-encoding'') (up_body proxyRes) = Inr body
          \<and> json_parse rt body = Some (JObject props)
          \<and> map_of props ''choices'' = Some (JArray (JObject cprops # rest))
          \<and> map_of cprops ''message'' = Some (JObject mprops)
          \<and> map_of mprops ''content'' = None"
  let ?k = "JObject ((''results'', JArray [JObject []])
                       # object_of [(''model'', lookup ''model'' props)])"
  from a have k: "koboldResponse (JObject props) = Inr ?k"
    using kobold_lacks_content by blast
  have "on_end rt proxyRes = Inr (send_reply rt (up_headers proxyRes ''content-encoding'') ?k)"
    using a k by (simp add: on_end_unfold)
  then have "on_end rt proxyRes =
      Inr (fst (send_reply rt (up_headers proxyRes ''content-encoding'') ?k),
           snd (send_reply rt (up_headers proxyRes ''content-encoding'') ?k))" by simp
  from stage_sends(1,2)[OF assms this]
  show "thrown (handleProxiedResponse rt proxyRes req ks) = None"
    "client_body (handleProxiedResponse rt proxyRes req ks) =
       Some (snd (send_reply rt (up_headers proxyRes ''content-encoding'') ?k))" by simp_all
qed

theorem accounting_precedes_parsing_witness:
  "\<not> downstreamError (fixture_response None (JsonText fixture_no_choices))
   \<and> map promptCount fixture_pool = [0, 0, 0, 0]
   \<and> map promptCount (pool_after (handleProxiedResponse fixture_runtime
        (fixture_response None (JsonText fixture_no_choices)) fixture_request fixture_pool))
       = [0, 1, 0, 0]
   \<and> thrown (handleProxiedResponse fixture_runtime
        (fixture_response None (JsonText fixture_no_choices)) fixture_request fixture_pool)
       = Some TypeError
   \<and> client_body (handleProxiedResponse fixture_runtime
        (fixture_response None (JsonText fixture_no_choices)) fixture_request fixture_pool)
       = None
   \<and> client_body (handleProxiedResponse fixture_runtime
        (fixture_response None (JsonText fixture_no_content)) fixture_request fixture_pool)
       = Some (JsonText (JObject [(''results'', JArray [JObject []])]))"
proof -
  let ?a = "fixture_response None (JsonText fixture_no_choices)"
  let ?b = "fixture_response None (JsonText fixture_no_content)"
  have ok: "\<not> downstreamError ?a" "\<not> downstreamError ?b" by (simp_all add: fixture_response_def)
  note ta = accounting_precedes_parsing[OF ok(1), of fixture_runtime fixture_request fixture_pool]
  note tb = accounting_precedes_parsing[OF ok(2), of fixture_runtime fixture_request fixture_pool]
  have da: "decode_body fixture_runtime (up_headers ?a ''content-encoding'') (up_body ?a)
      = Inr (JsonText fixture_no_choices)"
    "json_parse fixture_runtime (JsonText fixture_no_choices) = Some (JObject [(''choices'', JArray [])])"
    "map_of [(''choices'', JArray [])] ''choices'' = Some (JArray [])"
    by (simp_all add: fixture_response_def decode_body_def fixture_runtime_def fixture_no_choices_def)
  have db: "decode_body fixture_runtime (up_headers ?b ''content-encoding'') (up_body ?b)
      = Inr (JsonText fixture_no_content)"
    "json_parse fixture_runtime (JsonText fixture_no_content)
       = Some (JObject [(''choices'', JArray [JObject [(''message'', JObject [])]])])"
    "map_of [(''choices'', JArray [JObject [(''message'', JObject [])]])] ''choices''
       = Some (JArray (JObject [(''message'', JObject [])] # []))"
    "map_of [(''message'', JObject [])] ''message'' = Some (JObject [])"
    "map_of ([] :: (string \<times> json) list) ''content'' = None"
    by (simp_all add: fixture_response_def decode_body_def fixture_runtime_def fixture_no_content_def)
  from ta da have 1: "thrown (handleProxiedResponse fixture_runtime ?a fixture_request fixture_pool) = Some TypeError
     \<and> client_body (handleProxiedResponse fixture_runtime ?a fixture_request fixture_pool) = None"
    by blast
  from ta have 2: "pool_after (handleProxiedResponse fixture_runtime ?a fixture_request fixture_pool)
      = incrementKeyUsage fixture_request fixture_pool" by blast
  have 3: "map promptCount (incrementKeyUsage fixture_request fixture_pool) = [0, 1, 0, 0]"
    "map promptCount fixture_pool = [0, 0, 0, 0]"
    by code_simp+
  from tb db have "client_body (handleProxiedResponse fixture_runtime ?b fixture_request fixture_pool) =
       Some (snd (send_reply fixture_runtime (up_headers ?b ''content-encoding'')
                    (JObject ((''results'', JArray [JObject []])
                       # object_of [(''model'', lookup ''model'' [(''choices'', JArray [JObject [(''message'', JObject [])]])])]))))"
    by blast
  then have 4: "client_body (handleProxiedResponse fixture_runtime ?b fixture_request fixture_pool)
       = Some (JsonText (JObject [(''results'', JArray [JObject []])]))"
    by (simp add: send_reply_def fixture_response_def fixture_runtime_def lookup_def)
  from ok 1 2 3 4 show ?thesis by simp
qed

text \<open>
  C2 as stated fails on the body \<open>{choices: []}\<close>: the prompt counter of the request's
  key goes from 0 to 1. It fails on \<open>{choices: [{message: {}}]}\<close> too, where no error is
  raised and \<open>{results: [{}]}\<close> is sent.
\<close>

theorem malformed_response_counterexample:
  "\<not> downstreamError (fixture_response None (JsonText fixture_no_choices))
   \<and> json_parse fixture_runtime (JsonText fixture_no_choices) = Some (JObject [(''choices'', JArray [])])
   \<and> promptCount (fixture_pool ! 1) = 0
   \<and> promptCount (pool_after (handleProxiedResponse fixture_runtime
        (fixture_response None (JsonText fixture_no_choices)) fixture_request fixture_pool) ! 1) = 1
   \<and> thrown (handleProxiedResponse fixture_runtime
        (fixture_response None (JsonText fixture_no_content)) fixture_request fixture_pool) = None
   \<and> client_body (handleProxiedResponse fixture_runtime
        (fixture_response None (JsonText fixture_no_content)) fixture_request fixture_pool)
       = Some (JsonText (JObject [(''results'', JArray [JObject []])]))"
  by code_simp

end
